theory Spec2Isabelle
  imports Complex_Main
begin

section \<open>Python values, exceptions and effects\<close>

text \<open>
  The two scripts \<^verbatim>\<open>clisysmtr.py\<close> and \<^verbatim>\<open>sysmon.py\<close> poll the operating system
  through \<^verbatim>\<open>psutil\<close>, \<^verbatim>\<open>socket\<close>, \<^verbatim>\<open>time\<close> and \<^verbatim>\<open>datetime\<close>, print text and append
  to a log file. The embedding makes each of these explicit:
  \<^item> an exception is a value of \<open>pyexn\<close>; a computation returns \<open>pyexn + 'a\<close>;
  \<^item> everything a computation does to the outside is an \<open>effect\<close>, collected in order;
  \<^item> everything the outside answers is a field of the record \<open>world\<close>.
\<close>

datatype pyexn =
    OSError string
  | AttributeError string
  | TypeError string
  | ValueError string
  | OverflowError string
  | OtherException string
  | KeyboardInterrupt
  | SystemExit int

text \<open>\<^verbatim>\<open>except Exception\<close> catches every exception class but the two that derive
  from \<^verbatim>\<open>BaseException\<close> directly.\<close>

fun is_Exception :: "pyexn \<Rightarrow> bool" where
  "is_Exception KeyboardInterrupt = False"
| "is_Exception (SystemExit n) = False"
| "is_Exception e = True"

text \<open>\<^verbatim>\<open>socket.error\<close> is \<^verbatim>\<open>OSError\<close>.\<close>

fun is_socket_error :: "pyexn \<Rightarrow> bool" where
  "is_socket_error (OSError m) = True"
| "is_socket_error e = False"

definition digit_char :: "nat \<Rightarrow> char" where
  "digit_char n = ''0123456789'' ! n"

fun show_nat :: "nat \<Rightarrow> string" where
  "show_nat n = (if n < 10 then [digit_char n] else show_nat (n div 10) @ [digit_char (n mod 10)])"

declare show_nat.simps [simp del]

text \<open>\<^verbatim>\<open>str(i)\<close> of a Python int.\<close>

definition show_int :: "int \<Rightarrow> string" where
  "show_int i = (if i < 0 then ''-'' @ show_nat (nat (- i)) else show_nat (nat i))"

text \<open>\<^verbatim>\<open>str(e)\<close>, as the f-strings \<^verbatim>\<open>{e}\<close> render an exception.\<close>

fun exn_str :: "pyexn \<Rightarrow> string" where
  "exn_str (OSError m) = m"
| "exn_str (AttributeError m) = m"
| "exn_str (TypeError m) = m"
| "exn_str (ValueError m) = m"
| "exn_str (OverflowError m) = m"
| "exn_str (OtherException m) = m"
| "exn_str KeyboardInterrupt = []"
| "exn_str (SystemExit n) = show_int n"

definition quoted :: "string \<Rightarrow> string" where
  "quoted s = CHR 0x27 # s @ [CHR 0x27]"

text \<open>The message of the \<^verbatim>\<open>AttributeError\<close> that a missing module attribute raises.\<close>

definition no_attribute :: "string \<Rightarrow> string \<Rightarrow> string" where
  "no_attribute m a = ''module '' @ quoted m @ '' has no attribute '' @ quoted a"

text \<open>The same for a missing attribute of an object of class \<open>c\<close>.\<close>

definition no_object_attribute :: "string \<Rightarrow> string \<Rightarrow> string" where
  "no_object_attribute c a = quoted c @ '' object has no attribute '' @ quoted a"

datatype stream = Stdout | Stderr

datatype effect =
    Call string
  | Sleep int
  | Write stream string
  | Append string string

text \<open>
  \<open>Call f\<close>: the external function \<open>f\<close> was entered; \<open>Sleep n\<close>: \<^verbatim>\<open>time.sleep(n)\<close> was
  entered; \<open>Write s t\<close>: the text \<open>t\<close> and a newline went to the stream \<open>s\<close>;
  \<open>Append p t\<close>: \<open>t\<close> was appended to the file \<open>p\<close>.
\<close>

type_synonym 'a outcome = "pyexn + 'a"

type_synonym 'a io = "effect list \<times> 'a outcome"

definition io_return :: "'a \<Rightarrow> 'a io" where
  "io_return x = ([], Inr x)"

definition io_raise :: "pyexn \<Rightarrow> 'a io" where
  "io_raise e = ([], Inl e)"

text \<open>Sequencing: the effects so far are kept when the first part raises.\<close>

definition io_bind :: "'a io \<Rightarrow> ('a \<Rightarrow> 'b io) \<Rightarrow> 'b io" where
  "io_bind m f =
     (case m of
        (es, Inl e) \<Rightarrow> (es, Inl e)
      | (es, Inr x) \<Rightarrow> (case f x of (es', r) \<Rightarrow> (es @ es', r)))"

text \<open>\<^verbatim>\<open>print(s)\<close> writes to \<^verbatim>\<open>sys.stdout\<close>; neither script passes \<^verbatim>\<open>file=\<close>.\<close>

definition print :: "string \<Rightarrow> unit io" where
  "print s = ([Write Stdout s], Inr ())"

text \<open>
  \<^verbatim>\<open>try: body except Exception as e: print(msg e); return absent\<close>.
  An exception that is no \<^verbatim>\<open>Exception\<close> passes through.
\<close>

definition except_Exception :: "'a io \<Rightarrow> (pyexn \<Rightarrow> string) \<Rightarrow> 'a \<Rightarrow> 'a io" where
  "except_Exception body msg absent =
     (case body of
        (es, Inl e) \<Rightarrow>
          if is_Exception e then (es @ [Write Stdout (msg e)], Inr absent) else (es, Inl e)
      | (es, Inr x) \<Rightarrow> (es, Inr x))"

definition stdout_of :: "effect list \<Rightarrow> string list" where
  "stdout_of es = concat (map (\<lambda>e. case e of Write Stdout t \<Rightarrow> [t] | _ \<Rightarrow> []) es)"

definition stderr_of :: "effect list \<Rightarrow> string list" where
  "stderr_of es = concat (map (\<lambda>e. case e of Write Stderr t \<Rightarrow> [t] | _ \<Rightarrow> []) es)"

definition calls_of :: "effect list \<Rightarrow> string list" where
  "calls_of es = concat (map (\<lambda>e. case e of Call f \<Rightarrow> [f] | _ \<Rightarrow> []) es)"

section \<open>Floats and their formatting\<close>

text \<open>
  A finite Python float is modelled by the rational number it denotes. The byte counts
  of \<^verbatim>\<open>psutil\<close> are ints; \<^verbatim>\<open>n / (1024 ** 3)\<close> is the exact quotient for every
  \<open>n\<close> below \<open>2 ^ 53\<close>, where the float division does not round.
\<close>

definition to_gb :: "int \<Rightarrow> rat" where
  "to_gb n = of_int n / (1024 ^ 3)"

definition round_half_even :: "rat \<Rightarrow> int" where
  "round_half_even q =
     (let f = \<lfloor>q\<rfloor>; r = q - of_int f
      in if r < 1 / 2 then f else if 1 / 2 < r then f + 1 else if even f then f else f + 1)"

definition two_digits :: "nat \<Rightarrow> string" where
  "two_digits n = [digit_char (n div 10), digit_char (n mod 10)]"

text \<open>\<^verbatim>\<open>format(x, ".2f")\<close>: the value rounded to two decimals, ties to even.\<close>

definition fmt_2f :: "rat \<Rightarrow> string" where
  "fmt_2f x =
     (let n = nat (round_half_even (\<bar>x\<bar> * 100))
      in (if x < 0 then ''-'' else []) @ show_nat (n div 100) @ ''.'' @ two_digits (n mod 100))"

text \<open>\<^verbatim>\<open>f"{v:.2f}"\<close> where \<open>v\<close> may be \<^verbatim>\<open>None\<close>: \<^verbatim>\<open>None\<close> rejects the format.\<close>

definition fmt_2f_opt :: "rat option \<Rightarrow> string outcome" where
  "fmt_2f_opt v =
     (case v of
        None \<Rightarrow> Inl (TypeError ''unsupported format string passed to NoneType.__format__'')
      | Some x \<Rightarrow> Inr (fmt_2f x))"

text \<open>\<^verbatim>\<open>f"{v}"\<close> where \<open>v\<close> may be \<^verbatim>\<open>None\<close>.\<close>

definition str_opt :: "('a \<Rightarrow> string) \<Rightarrow> 'a option \<Rightarrow> string" where
  "str_opt f v = (case v of None \<Rightarrow> ''None'' | Some x \<Rightarrow> f x)"

section \<open>The outside world\<close>

record svmem =
  vm_total :: int
  vm_available :: int
  vm_used :: int
  vm_percent :: rat

text \<open>\<open>du_device = None\<close>: the object \<^verbatim>\<open>psutil.disk_usage\<close> returned has no
  attribute \<^verbatim>\<open>device\<close>.\<close>

record sdiskusage =
  du_total :: int
  du_used :: int
  du_free :: int
  du_percent :: rat
  du_device :: "string option"

record snetio =
  nio_bytes_sent :: int
  nio_bytes_recv :: int

text \<open>
  What the outside answers during one pass of the sampling code. Each external call
  either raises or returns; \<open>socket_has\<close> and \<open>psutil_has\<close> say which attributes the
  two modules define (\<^verbatim>\<open>hasattr\<close>); \<open>float_str\<close> is \<^verbatim>\<open>str\<close> on floats.
\<close>

record world =
  socket_has :: "string \<Rightarrow> bool"
  psutil_has :: "string \<Rightarrow> bool"
  sock_local_addr :: "string \<times> int \<Rightarrow> string outcome"
  cpu_percent :: "rat outcome"
  cpu_freq_current :: "rat outcome"
  cpu_info_model :: "string outcome"
  virtual_memory :: "svmem outcome"
  disk_usage :: "string \<Rightarrow> sdiskusage outcome"
  net_io_counters_1 :: "snetio outcome"
  sleep_1s :: "pyexn option"
  net_io_counters_2 :: "snetio outcome"
  strftime_now :: "string \<Rightarrow> string outcome"
  append_file :: "string \<Rightarrow> string \<Rightarrow> pyexn option"
  sleep_interval :: "pyexn option"
  float_str :: "rat \<Rightarrow> string"

definition socket_attr :: "world \<Rightarrow> string \<Rightarrow> unit io" where
  "socket_attr w a =
     (if socket_has w a then io_return () else io_raise (AttributeError (no_attribute ''socket'' a)))"

text \<open>\<^verbatim>\<open>psutil.f(...)\<close>: the attribute lookup, then the call.\<close>

definition psutil_call :: "world \<Rightarrow> string \<Rightarrow> 'a outcome \<Rightarrow> 'a io" where
  "psutil_call w f r =
     (if psutil_has w f then ([Call (''psutil.'' @ f)], r)
      else io_raise (AttributeError (no_attribute ''psutil'' f)))"

text \<open>
  \<^verbatim>\<open>time.sleep(n)\<close> for an int \<open>n\<close>. CPython converts the seconds to a signed 64-bit
  count of nanoseconds first and raises \<^verbatim>\<open>OverflowError\<close> when that does not fit (the
  message is that of CPython 3.12; 3.13 writes \<^verbatim>\<open>PyTime_t\<close>); then it
  rejects a negative length; then it waits, and \<open>r\<close> is the exception that ends the
  wait, if any.
\<close>

definition time_sleep :: "int \<Rightarrow> pyexn option \<Rightarrow> unit io" where
  "time_sleep n r =
     (if n * 1000000000 < - (2 ^ 63) \<or> 2 ^ 63 - 1 < n * 1000000000
      then io_raise (OverflowError ''timestamp too large to convert to C _PyTime_t'')
      else if n < 0 then io_raise (ValueError ''sleep length must be non-negative'')
      else ([Sleep n], case r of None \<Rightarrow> Inr () | Some e \<Rightarrow> Inl e))"

text \<open>\<^verbatim>\<open>with open(p, "a") as f: f.write(t)\<close>.\<close>

definition file_append :: "world \<Rightarrow> string \<Rightarrow> string \<Rightarrow> unit io" where
  "file_append w p t =
     (case append_file w p t of None \<Rightarrow> ([Append p t], Inr ()) | Some e \<Rightarrow> io_raise e)"

definition now_strftime :: "world \<Rightarrow> string \<Rightarrow> string io" where
  "now_strftime w f = ([Call ''datetime.now''], strftime_now w f)"

section \<open>clisysmtr.py: the samplers\<close>

definition get_local_ip_try :: "world \<Rightarrow> string io" where
  "get_local_ip_try w =
     io_bind (socket_attr w ''socket'') (\<lambda>_.
     io_bind (socket_attr w ''af_inet'') (\<lambda>_.
     io_bind (socket_attr w ''sock_dgram'') (\<lambda>_.
     ([Call ''socket.connect''], sock_local_addr w (''8.8.8.8'', 80)))))"

definition get_local_ip :: "world \<Rightarrow> string option io" where
  "get_local_ip w =
     (case get_local_ip_try w of
        (es, Inr ip) \<Rightarrow> (es, Inr (Some ip))
      | (es, Inl e) \<Rightarrow>
          if \<not> socket_has w ''error''
          then (es, Inl (AttributeError (no_attribute ''socket'' ''error'')))
          else if is_socket_error e
          then (es @ [Write Stdout (''error getting local ip: '' @ exn_str e)], Inr None)
          else if is_Exception e
          then (es @ [Write Stdout (''an unexpected error occurred: '' @ exn_str e)], Inr None)
          else (es, Inl e))"

definition get_cpu_usage_try :: "world \<Rightarrow> rat option io" where
  "get_cpu_usage_try w =
     io_bind (psutil_call w ''cpu_percent'' (cpu_percent w)) (\<lambda>p. io_return (Some p))"

definition get_cpu_usage :: "world \<Rightarrow> rat option io" where
  "get_cpu_usage w =
     except_Exception (get_cpu_usage_try w) (\<lambda>e. ''error getting cpu usage: '' @ exn_str e) None"

definition get_cpu_clock_try :: "world \<Rightarrow> rat option io" where
  "get_cpu_clock_try w =
     (if psutil_has w ''cpu_freq''
      then io_bind (psutil_call w ''cpu_freq'' (cpu_freq_current w)) (\<lambda>c. io_return (Some c))
      else io_return None)"

definition get_cpu_clock :: "world \<Rightarrow> rat option io" where
  "get_cpu_clock w =
     except_Exception (get_cpu_clock_try w)
       (\<lambda>e. ''error getting cpu clock speed: '' @ exn_str e) None"

definition get_cpu_name_try :: "world \<Rightarrow> string option io" where
  "get_cpu_name_try w =
     io_bind (psutil_call w ''cpu_info'' (cpu_info_model w)) (\<lambda>m. io_return (Some m))"

definition get_cpu_name :: "world \<Rightarrow> string option io" where
  "get_cpu_name w =
     except_Exception (get_cpu_name_try w) (\<lambda>e. ''Error getting CPU name: '' @ exn_str e) None"

definition get_ram_usage_try :: "world \<Rightarrow> (rat option \<times> rat option \<times> rat option) io" where
  "get_ram_usage_try w =
     io_bind (psutil_call w ''virtual_memory'' (virtual_memory w)) (\<lambda>mem.
       io_return (Some (to_gb (vm_total mem)), Some (to_gb (vm_used mem)), Some (vm_percent mem)))"

definition get_ram_usage :: "world \<Rightarrow> (rat option \<times> rat option \<times> rat option) io" where
  "get_ram_usage w =
     except_Exception (get_ram_usage_try w)
       (\<lambda>e. ''error getting ram usage: '' @ exn_str e) (None, None, None)"

definition get_disk_usage_try ::
  "world \<Rightarrow> string \<Rightarrow> (string option \<times> rat option \<times> rat option \<times> rat option) io" where
  "get_disk_usage_try w path =
     io_bind (psutil_call w ''disk_usage'' (disk_usage w path)) (\<lambda>disk.
       case du_device disk of
         None \<Rightarrow> io_raise (AttributeError (no_object_attribute ''sdiskusage'' ''device''))
       | Some device \<Rightarrow>
           io_return (Some device, Some (to_gb (du_total disk)), Some (to_gb (du_used disk)),
             Some (du_percent disk)))"

definition get_disk_usage ::
  "world \<Rightarrow> string \<Rightarrow> (string option \<times> rat option \<times> rat option \<times> rat option) io" where
  "get_disk_usage w path =
     except_Exception (get_disk_usage_try w path)
       (\<lambda>e. ''error getting disk usage for '' @ path @ '': '' @ exn_str e)
       (None, None, None, None)"

definition get_network_activity_try :: "world \<Rightarrow> (int option \<times> int option) io" where
  "get_network_activity_try w =
     io_bind (psutil_call w ''net_io_counters'' (net_io_counters_1 w)) (\<lambda>c.
     io_bind (time_sleep 1 (sleep_1s w)) (\<lambda>_.
     io_bind (psutil_call w ''net_io_counters'' (net_io_counters_2 w)) (\<lambda>c_after.
       io_return (Some (nio_bytes_sent c_after - nio_bytes_sent c),
                  Some (nio_bytes_recv c_after - nio_bytes_recv c)))))"

definition get_network_activity :: "world \<Rightarrow> (int option \<times> int option) io" where
  "get_network_activity w =
     except_Exception (get_network_activity_try w)
       (\<lambda>e. ''error getting network activity: '' @ exn_str e) (None, None)"

section \<open>clisysmtr.py: display_system_info\<close>

text \<open>The local variables that the seven sampler calls of \<^verbatim>\<open>display_system_info\<close> bind.\<close>

record snapshot =
  ip_address :: "string option"
  cpu_usage :: "rat option"
  cpu_clock :: "rat option"
  cpu_name :: "string option"
  ram_total :: "rat option"
  ram_used :: "rat option"
  ram_percent :: "rat option"
  disk_device :: "string option"
  disk_total :: "rat option"
  disk_used :: "rat option"
  disk_percent :: "rat option"
  bytes_sent :: "int option"
  bytes_recv :: "int option"

definition build_snapshot :: "world \<Rightarrow> snapshot io" where
  "build_snapshot w =
     io_bind (get_local_ip w) (\<lambda>ip.
     io_bind (get_cpu_usage w) (\<lambda>cu.
     io_bind (get_cpu_clock w) (\<lambda>cc.
     io_bind (get_cpu_name w) (\<lambda>cn.
     io_bind (get_ram_usage w) (\<lambda>(rt, ru, rp).
     io_bind (get_disk_usage w ''/'') (\<lambda>(dd, dt, du, dp).
     io_bind (get_network_activity w) (\<lambda>(bs, br).
       io_return \<lparr>ip_address = ip, cpu_usage = cu, cpu_clock = cc, cpu_name = cn,
         ram_total = rt, ram_used = ru, ram_percent = rp,
         disk_device = dd, disk_total = dt, disk_used = du, disk_percent = dp,
         bytes_sent = bs, bytes_recv = br\<rparr>)))))))"

text \<open>\<^verbatim>\<open>if v:\<close> on a string or \<^verbatim>\<open>None\<close>, and on a float or \<^verbatim>\<open>None\<close>.\<close>

definition truthy_str :: "string option \<Rightarrow> bool" where
  "truthy_str v = (case v of None \<Rightarrow> False | Some s \<Rightarrow> s \<noteq> [])"

definition truthy_float :: "rat option \<Rightarrow> bool" where
  "truthy_float v = (case v of None \<Rightarrow> False | Some x \<Rightarrow> x \<noteq> 0)"

definition ip_line :: "snapshot \<Rightarrow> string" where
  "ip_line s =
     (if truthy_str (ip_address s) then ''local ip address: '' @ str_opt id (ip_address s)
      else ''failed to retrieve local ip address.'')"

definition cpu_name_line :: "snapshot \<Rightarrow> string" where
  "cpu_name_line s =
     (if truthy_str (cpu_name s) then ''cpu name: '' @ str_opt id (cpu_name s)
      else ''failed to retrieve cpu name.'')"

definition cpu_usage_line :: "world \<Rightarrow> snapshot \<Rightarrow> string" where
  "cpu_usage_line w s =
     (case cpu_usage s of
        Some p \<Rightarrow> ''cpu usage: '' @ float_str w p @ ''%''
      | None \<Rightarrow> ''failed to retrieve cpu usage.'')"

definition cpu_clock_line :: "snapshot \<Rightarrow> string" where
  "cpu_clock_line s =
     (case cpu_clock s of
        Some c \<Rightarrow> ''cpu clock speed: '' @ fmt_2f c @ '' mhz''
      | None \<Rightarrow> ''cpu clock speed: not supported or failed to retrieve.'')"

definition ram_line :: "snapshot \<Rightarrow> string" where
  "ram_line s =
     (case (ram_total s, ram_used s, ram_percent s) of
        (Some t, Some u, Some p) \<Rightarrow>
          ''ram: '' @ fmt_2f u @ '' gb / '' @ fmt_2f t @ '' gb ('' @ fmt_2f p @ ''%)''
      | _ \<Rightarrow> ''failed to retrieve ram usage.'')"

definition disk_line :: "snapshot \<Rightarrow> string" where
  "disk_line s =
     (if truthy_str (disk_device s) \<and> truthy_float (disk_total s) \<and>
         truthy_float (disk_used s) \<and> truthy_float (disk_percent s)
      then ''disk drive ('' @ str_opt id (disk_device s) @ ''): '' @
           str_opt fmt_2f (disk_used s) @ '' gb / '' @ str_opt fmt_2f (disk_total s) @
           '' gb ('' @ str_opt fmt_2f (disk_percent s) @ ''%)''
      else ''failed to retrieve disk usage.'')"

definition network_line :: "snapshot \<Rightarrow> string" where
  "network_line s =
     (case (bytes_sent s, bytes_recv s) of
        (Some a, Some b) \<Rightarrow>
          ''network activity: sent: '' @ show_int a @ '' bytes/s, received: '' @ show_int b @
          '' bytes/s''
      | _ \<Rightarrow> ''failed to retrieve network activity.'')"

text \<open>Lines 149 to 182: the seven \<^verbatim>\<open>if\<close> statements, in the order of the source.\<close>

definition console_lines :: "world \<Rightarrow> snapshot \<Rightarrow> string list" where
  "console_lines w s =
     [ip_line s, cpu_name_line s, cpu_usage_line w s, cpu_clock_line s, ram_line s,
      disk_line s, network_line s]"

definition print_lines :: "string list \<Rightarrow> unit io" where
  "print_lines ls = (map (Write Stdout) ls, Inr ())"

definition out_bind :: "'a outcome \<Rightarrow> ('a \<Rightarrow> 'b outcome) \<Rightarrow> 'b outcome" where
  "out_bind m f = (case m of Inl e \<Rightarrow> Inl e | Inr x \<Rightarrow> f x)"

text \<open>Lines 186 to 192: the f-string of the log entry, its fields formatted left to
  right; \<open>ts\<close> is the timestamp.\<close>

definition log_entry :: "world \<Rightarrow> string \<Rightarrow> snapshot \<Rightarrow> string outcome" where
  "log_entry w ts s =
     out_bind (fmt_2f_opt (ram_total s)) (\<lambda>rt.
     out_bind (fmt_2f_opt (ram_used s)) (\<lambda>ru.
     out_bind (fmt_2f_opt (ram_percent s)) (\<lambda>rp.
     out_bind (fmt_2f_opt (disk_total s)) (\<lambda>dt.
     out_bind (fmt_2f_opt (disk_used s)) (\<lambda>du.
     out_bind (fmt_2f_opt (disk_percent s)) (\<lambda>dp.
       Inr (ts @ '', ip: '' @ str_opt id (ip_address s) @
            '', cpu_name: '' @ str_opt id (cpu_name s) @
            '', cpu_usage: '' @ str_opt (float_str w) (cpu_usage s) @ ''%, '' @
            ''cpu_clock: '' @ str_opt (float_str w) (cpu_clock s) @
            '', ram_total: '' @ rt @ ''gb, ram_used: '' @ ru @ ''gb, '' @
            ''ram_percent: '' @ rp @ ''%, disk_device: '' @ str_opt id (disk_device s) @ '', '' @
            ''disk_total: '' @ dt @ ''gb, disk_used: '' @ du @ ''gb, '' @
            ''disk_percent: '' @ dp @ ''%, bytes_sent: '' @ str_opt show_int (bytes_sent s) @
            '', bytes_recv: '' @ str_opt show_int (bytes_recv s) @ [CHR 0x0A])))))))"

record args =
  interval :: int
  log_opt :: "string option"
  no_loop :: bool

text \<open>Lines 184 to 197: the part of \<^verbatim>\<open>display_system_info\<close> under \<^verbatim>\<open>if args.log:\<close>.\<close>

definition write_log :: "world \<Rightarrow> string \<Rightarrow> snapshot \<Rightarrow> unit io" where
  "write_log w path s =
     io_bind (now_strftime w ''%y%m%d-%h%m%s'') (\<lambda>timestamp.
     io_bind ([], log_entry w timestamp s) (\<lambda>entry.
       except_Exception (file_append w path entry)
         (\<lambda>e. ''error writing to log file: '' @ exn_str e) ()))"

definition display_system_info :: "world \<Rightarrow> args \<Rightarrow> unit io" where
  "display_system_info w a =
     io_bind (build_snapshot w) (\<lambda>s.
     io_bind (print_lines (console_lines w s)) (\<lambda>_.
       if truthy_str (log_opt a) then write_log w (str_opt id (log_opt a)) s
       else io_return ()))"

section \<open>clisysmtr.py: main\<close>

text \<open>
  \<^verbatim>\<open>while True: body\<close> over the worlds of the successive passes. The loop has no
  \<^verbatim>\<open>break\<close>: it ends with the exception a pass raises, and \<open>None\<close> says that no pass
  over the given worlds has raised, so that the loop is still running after them.
\<close>

fun while_True :: "(world \<Rightarrow> unit io) \<Rightarrow> world list \<Rightarrow> (effect list \<times> pyexn) option" where
  "while_True body [] = None"
| "while_True body (w # ws) =
     (case body w of
        (es, Inl e) \<Rightarrow> Some (es, e)
      | (es, Inr u) \<Rightarrow>
          (case while_True body ws of
             None \<Rightarrow> None
           | Some (es', e) \<Rightarrow> Some (es @ es', e)))"

text \<open>The effects of the passes over the worlds \<open>ws\<close>, one after the other.\<close>

definition effects_of :: "(world \<Rightarrow> unit io) \<Rightarrow> world list \<Rightarrow> effect list" where
  "effects_of body ws = concat (map (\<lambda>u. fst (body u)) ws)"

text \<open>Lines 257 to 260: one pass of the loop of \<^verbatim>\<open>main\<close>.\<close>

definition loop_body :: "args \<Rightarrow> world \<Rightarrow> unit io" where
  "loop_body a w =
     io_bind (display_system_info w a) (\<lambda>_.
     io_bind (time_sleep (interval a) (sleep_interval w)) (\<lambda>_.
       if truthy_str (log_opt a) then print (''logged to '' @ str_opt id (log_opt a))
       else io_return ()))"

text \<open>
  \<^verbatim>\<open>main\<close> after \<^verbatim>\<open>parse_args\<close>: \<open>w\<close> is the world of the first pass, \<open>ws\<close> those of
  the later passes.
\<close>

definition main :: "args \<Rightarrow> world \<Rightarrow> world list \<Rightarrow> unit io option" where
  "main a w ws =
     (if no_loop a then Some (display_system_info w a)
      else
        (case while_True (loop_body a) (w # ws) of
           None \<Rightarrow> None
         | Some (es, e) \<Rightarrow>
             if e = KeyboardInterrupt
             then Some (es @ [Write Stdout (CHR 0x0A # ''monitoring stopped by user.'')], Inr ())
             else if is_Exception e
             then Some (es @ [Write Stdout (''an unexpected error occurred: '' @ exn_str e)],
                        Inl (SystemExit 1))
             else Some (es, Inl e)))"

text \<open>
  How the interpreter ends after the script's last statement: exit status 0 when it
  returns, the argument of \<^verbatim>\<open>sys.exit\<close> when that was raised, and otherwise the
  exception that nothing caught.
\<close>

datatype proc_end = Exit int | Uncaught pyexn

fun script_end :: "unit outcome \<Rightarrow> proc_end" where
  "script_end (Inr u) = Exit 0"
| "script_end (Inl (SystemExit n)) = Exit n"
| "script_end (Inl e) = Uncaught e"

text \<open>
  The status the parent process sees. An uncaught \<^verbatim>\<open>Exception\<close> prints a traceback and
  gives exit code 1; on an uncaught \<^verbatim>\<open>KeyboardInterrupt\<close> CPython ends the process by
  the signal SIGINT itself (a shell shows 130), which is no exit code 0 on any platform.
\<close>

datatype status = Code int | Sigint

fun exit_status :: "proc_end \<Rightarrow> status" where
  "exit_status (Exit n) = Code n"
| "exit_status (Uncaught KeyboardInterrupt) = Sigint"
| "exit_status (Uncaught (SystemExit n)) = Code n"
| "exit_status (Uncaught e) = Code 1"

definition clisysmtr :: "args \<Rightarrow> world \<Rightarrow> world list \<Rightarrow> (effect list \<times> proc_end) option" where
  "clisysmtr a w ws = map_option (\<lambda>(es, r). (es, script_end r)) (main a w ws)"

section \<open>sysmon.py\<close>

type_synonym usage =
  "rat option \<times> rat option \<times> rat option \<times> rat option \<times> int option \<times> int option \<times>
   rat option \<times> rat option \<times> rat option"

definition get_system_usage_try :: "world \<Rightarrow> usage io" where
  "get_system_usage_try w =
     io_bind (psutil_call w ''cpu_percent'' (cpu_percent w)) (\<lambda>cpu_usage.
     io_bind (psutil_call w ''virtual_memory'' (virtual_memory w)) (\<lambda>mem.
     io_bind (psutil_call w ''net_io_counters'' (net_io_counters_1 w)) (\<lambda>c.
     io_bind (time_sleep 1 (sleep_1s w)) (\<lambda>_.
     io_bind (psutil_call w ''net_io_counters'' (net_io_counters_2 w)) (\<lambda>c_after.
     io_bind (psutil_call w ''disk_usage'' (disk_usage w ''/'')) (\<lambda>disk.
       io_return (Some cpu_usage, Some (vm_percent mem), Some (to_gb (vm_total mem)),
         Some (to_gb (vm_available mem)),
         Some (nio_bytes_sent c_after - nio_bytes_sent c),
         Some (nio_bytes_recv c_after - nio_bytes_recv c),
         Some (to_gb (du_total disk)), Some (to_gb (du_used disk)),
         Some (to_gb (du_free disk)))))))))"

definition get_system_usage :: "world \<Rightarrow> usage io" where
  "get_system_usage w =
     except_Exception (get_system_usage_try w)
       (\<lambda>e. ''Error getting system usage: '' @ exn_str e)
       (None, None, None, None, None, None, None, None, None)"

definition nl :: string where
  "nl = [CHR 0x0A]"

text \<open>Lines 64 to 77: the f-string of the log entry.\<close>

definition sysmon_log_entry :: "world \<Rightarrow> string \<Rightarrow> usage \<Rightarrow> string outcome" where
  "sysmon_log_entry w timestamp u =
     (case u of (cpu, mem, ram_t, ram_a, sent, recv, disk_t, disk_u, disk_f) \<Rightarrow>
     out_bind (fmt_2f_opt ram_t) (\<lambda>rt.
     out_bind (fmt_2f_opt ram_a) (\<lambda>ra.
     out_bind (fmt_2f_opt disk_t) (\<lambda>dt.
     out_bind (fmt_2f_opt disk_u) (\<lambda>du.
     out_bind (fmt_2f_opt disk_f) (\<lambda>df.
       Inr (''----------------------------------------------------------------------'' @ nl @
            timestamp @ nl @
            ''hardware monitoring:'' @ nl @
            [CHR 0x09, CHR 0x09] @ ''--  CPU usage: '' @ str_opt (float_str w) cpu @ ''%'' @ nl @
            ''          --  mem usage: '' @ str_opt (float_str w) mem @ ''%'' @ nl @
            ''          --  total RAM: '' @ rt @ '' GB'' @ nl @
            ''          --  available RAM: '' @ ra @ '' GB'' @ nl @
            ''network activity'' @ nl @
            ''          --  bytes sent/received: '' @ str_opt show_int sent @ ''/'' @
              str_opt show_int recv @ nl @
            ''disc space'' @ nl @
            ''          --  total space: '' @ dt @ '' GB'' @ nl @
            ''          --  used/free space: '' @ du @ ''/'' @ df @ ''GB'' @ nl @ nl)))))))"

definition log_system_usage :: "world \<Rightarrow> string \<Rightarrow> unit io" where
  "log_system_usage w log_file =
     io_bind (get_system_usage w) (\<lambda>u.
       if fst u \<noteq> None
       then io_bind (now_strftime w ''%Y-%m-%d %H:%M:%S'') (\<lambda>timestamp.
            io_bind ([], sysmon_log_entry w timestamp u) (\<lambda>entry.
              except_Exception
                (io_bind (file_append w log_file entry) (\<lambda>_.
                   print (''system resource logged at:'' @ nl @ entry)))
                (\<lambda>e. ''can'' @ [CHR 0x27] @ ''t write to log file: '' @ exn_str e) ()))
       else print ''unable to retrieve system info. aborted.'')"

definition sysmon_body :: "int \<Rightarrow> string \<Rightarrow> world \<Rightarrow> unit io" where
  "sysmon_body secs log_file w =
     io_bind (log_system_usage w log_file) (\<lambda>_. time_sleep secs (sleep_interval w))"

definition banner :: "int \<Rightarrow> string \<Rightarrow> string" where
  "banner secs log_file =
     nl @ [CHR 0x09] @ ''sysmon v001. '' @ nl @
     [CHR 0x09] @ ''monitoring system performance every '' @ show_int secs @
       '' seconds. Logging to '' @ log_file @ ''...'' @ nl @
     [CHR 0x09] @ ''might take approx. additional 1-2 seconds.'' @ nl @ [CHR 0x09]"

definition monitor_system :: "int \<Rightarrow> string \<Rightarrow> world list \<Rightarrow> unit io option" where
  "monitor_system secs log_file ws =
     (case while_True (sysmon_body secs log_file) ws of
        None \<Rightarrow> None
      | Some (es, e) \<Rightarrow>
          if e = KeyboardInterrupt
          then Some (Write Stdout (banner secs log_file) # es @
                     [Write Stdout (CHR 0x0A # ''Monitoring stopped by user.'')], Inr ())
          else if is_Exception e
          then Some (Write Stdout (banner secs log_file) # es @
                     [Write Stdout (''An error occurred during monitoring: '' @ exn_str e)], Inr ())
          else Some (Write Stdout (banner secs log_file) # es, Inl e))"

text \<open>The script: \<^verbatim>\<open>monitor_system(interval=8, log_file="sysmon_log.txt")\<close>.\<close>

definition sysmon :: "world list \<Rightarrow> (effect list \<times> proc_end) option" where
  "sysmon ws =
     map_option (\<lambda>(es, r). (es, script_end r)) (monitor_system 8 ''sysmon_log.txt'' ws)"

section \<open>Worlds without an interrupt\<close>

text \<open>An outcome that \<^verbatim>\<open>except Exception\<close> absorbs when it is an exception.\<close>

definition caught :: "'a outcome \<Rightarrow> bool" where
  "caught r = (case r of Inl e \<Rightarrow> is_Exception e | Inr x \<Rightarrow> True)"

text \<open>
  No external call of the samplers ends in \<^verbatim>\<open>KeyboardInterrupt\<close> or \<^verbatim>\<open>SystemExit\<close>, and
  the handler of \<^verbatim>\<open>get_local_ip\<close> finds \<^verbatim>\<open>socket.error\<close>.
\<close>

definition no_interrupt :: "world \<Rightarrow> bool" where
  "no_interrupt w =
     (socket_has w ''error'' \<and> caught (sock_local_addr w (''8.8.8.8'', 80)) \<and>
      caught (cpu_percent w) \<and> caught (cpu_freq_current w) \<and> caught (cpu_info_model w) \<and>
      caught (virtual_memory w) \<and> caught (disk_usage w ''/'') \<and>
      caught (net_io_counters_1 w) \<and>
      (case sleep_1s w of None \<Rightarrow> True | Some e \<Rightarrow> is_Exception e) \<and>
      caught (net_io_counters_2 w))"

definition snapshot_of :: "world \<Rightarrow> snapshot option" where
  "snapshot_of w = (case snd (build_snapshot w) of Inl e \<Rightarrow> None | Inr s \<Rightarrow> Some s)"

section \<open>Concrete worlds\<close>

text \<open>A stand-in for \<^verbatim>\<open>str\<close> on floats, right for a value with one decimal digit.\<close>

definition str_1dp :: "rat \<Rightarrow> string" where
  "str_1dp x =
     (if x < 0 then ''-'' else []) @ show_nat (nat \<lfloor>\<bar>x\<bar>\<rfloor>) @ ''.'' @
     [digit_char (nat (\<lfloor>\<bar>x\<bar> * 10\<rfloor> mod 10))]"

text \<open>The names among those the scripts use that CPython's \<^verbatim>\<open>socket\<close> module and
  \<^verbatim>\<open>psutil\<close> define.\<close>

definition cpython_socket :: "string \<Rightarrow> bool" where
  "cpython_socket a = (a \<in> set [''socket'', ''error'', ''AF_INET'', ''SOCK_DGRAM''])"

definition psutil_api :: "string \<Rightarrow> bool" where
  "psutil_api a =
     (a \<in> set [''cpu_percent'', ''cpu_freq'', ''virtual_memory'', ''disk_usage'',
        ''net_io_counters''])"

text \<open>
  A healthy host: the network is up, every query answers, the log file is writable.
  The memory is 16 GiB, half of it used; the counters are those of the spec's example.
\<close>

definition host :: world where
  "host =
     \<lparr>socket_has = cpython_socket, psutil_has = psutil_api,
      sock_local_addr = (\<lambda>peer. Inr ''192.168.1.10''),
      cpu_percent = Inr (25 / 2),
      cpu_freq_current = Inr 2400,
      cpu_info_model = Inl (AttributeError (no_attribute ''psutil'' ''cpu_info'')),
      virtual_memory =
        Inr \<lparr>vm_total = 17179869184, vm_available = 8589934592, vm_used = 8589934592,
             vm_percent = 50\<rparr>,
      disk_usage =
        (\<lambda>path. Inr \<lparr>du_total = 107374182400, du_used = 42949672960, du_free = 64424509440,
                      du_percent = 40, du_device = None\<rparr>),
      net_io_counters_1 = Inr \<lparr>nio_bytes_sent = 1000, nio_bytes_recv = 2000\<rparr>,
      sleep_1s = None,
      net_io_counters_2 = Inr \<lparr>nio_bytes_sent = 1500, nio_bytes_recv = 2600\<rparr>,
      strftime_now = (\<lambda>f. Inr ''2026-11-04 12:00:00''),
      append_file = (\<lambda>p t. None),
      sleep_interval = None,
      float_str = str_1dp\<rparr>"

text \<open>
  The same host behind test doubles that define every attribute the scripts name:
  \<^verbatim>\<open>socket.af_inet\<close>, \<^verbatim>\<open>psutil.cpu_info\<close>, and \<^verbatim>\<open>device\<close> on the disk reading.
\<close>

definition mocked :: world where
  "mocked =
     host\<lparr>socket_has := (\<lambda>a. True), psutil_has := (\<lambda>a. True),
          cpu_info_model := Inr ''Some CPU'',
          disk_usage :=
            (\<lambda>path. Inr \<lparr>du_total = 107374182400, du_used = 42949672960,
                          du_free = 64424509440, du_percent = 40,
                          du_device = Some ''/dev/sda1''\<rparr>)\<rparr>"

text \<open>The snapshot of \<open>mocked\<close>: every field group present.\<close>

definition populated :: snapshot where
  "populated =
     \<lparr>ip_address = Some ''192.168.1.10'', cpu_usage = Some (25 / 2), cpu_clock = Some 2400,
      cpu_name = Some ''Some CPU'',
      ram_total = Some 16, ram_used = Some 8, ram_percent = Some 50,
      disk_device = Some ''/dev/sda1'', disk_total = Some 100, disk_used = Some 40,
      disk_percent = Some 40,
      bytes_sent = Some 500, bytes_recv = Some 600\<rparr>"

text \<open>The healthy host, except that the memory query is refused.\<close>

definition ram_down :: world where
  "ram_down = host\<lparr>virtual_memory := Inl (OSError ''[Errno 13] Permission denied'')\<rparr>"

text \<open>The healthy host, except that the disk query is refused.\<close>

definition disk_down :: world where
  "disk_down = host\<lparr>disk_usage := (\<lambda>path. Inl (OSError ''[Errno 13] Permission denied''))\<rparr>"

text \<open>The healthy host with its clock set beyond the year 9999, which \<^verbatim>\<open>datetime\<close>
  cannot represent.\<close>

definition clock_out_of_range :: world where
  "clock_out_of_range =
     host\<lparr>strftime_now := (\<lambda>f. Inl (ValueError ''year 10000 is out of range''))\<rparr>"

text \<open>The healthy host where Ctrl-C arrives during the one-second wait of the network
  sampler.\<close>

definition interrupted_sampling :: world where
  "interrupted_sampling = host\<lparr>sleep_1s := Some KeyboardInterrupt\<rparr>"

text \<open>The healthy host where Ctrl-C arrives during the wait between two passes.\<close>

definition interrupted :: world where
  "interrupted = host\<lparr>sleep_interval := Some KeyboardInterrupt\<rparr>"

text \<open>\<^verbatim>\<open>--no-loop\<close>, \<^verbatim>\<open>--no-loop --log sys.log\<close>, no option at all, \<^verbatim>\<open>-i -1\<close> and
  \<^verbatim>\<open>-i 10000000000\<close>.\<close>

definition one_shot :: args where
  "one_shot = \<lparr>interval = 1, log_opt = None, no_loop = True\<rparr>"

definition one_shot_log :: args where
  "one_shot_log = \<lparr>interval = 1, log_opt = Some ''sys.log'', no_loop = True\<rparr>"

definition continuous :: args where
  "continuous = \<lparr>interval = 1, log_opt = None, no_loop = False\<rparr>"

definition negative_interval :: args where
  "negative_interval = \<lparr>interval = - 1, log_opt = None, no_loop = False\<rparr>"

definition huge_interval :: args where
  "huge_interval = \<lparr>interval = 10000000000, log_opt = None, no_loop = False\<rparr>"

section \<open>Basic facts\<close>

lemma io_bind_Inr [simp]: "io_bind (es, Inr x) f = (es @ fst (f x), snd (f x))"
  by (simp add: io_bind_def split: prod.splits)

lemma io_bind_Inl [simp]: "io_bind (es, Inl e) f = (es, Inl e)"
  by (simp add: io_bind_def)

lemma except_Exception_Inr [simp]: "except_Exception (es, Inr x) m a = (es, Inr x)"
  by (simp add: except_Exception_def)

lemma except_Exception_Inl [simp]:
  "except_Exception (es, Inl e) m a =
     (if is_Exception e then (es @ [Write Stdout (m e)], Inr a) else (es, Inl e))"
  by (simp add: except_Exception_def)

lemma time_sleep_1 [simp]: "time_sleep 1 None = ([Sleep 1], Inr ())"
  by (simp add: time_sleep_def)

lemma host_net:
  "psutil_has host = psutil_api"
  "net_io_counters_1 host = Inr \<lparr>nio_bytes_sent = 1000, nio_bytes_recv = 2000\<rparr>"
  "net_io_counters_2 host = Inr \<lparr>nio_bytes_sent = 1500, nio_bytes_recv = 2600\<rparr>"
  "sleep_1s host = None"
  by (simp_all add: host_def)

section \<open>The network rate\<close>

text \<open>
  Claim C6. The network-rate sampler reads the cumulative counters, sleeps one second,
  reads them again and returns the differences of the sent and the received bytes, in
  \<^verbatim>\<open>get_network_activity\<close> of clisysmtr.py and in \<^verbatim>\<open>get_system_usage\<close> of sysmon.py
  alike. The effects show the order: a reading, \<open>Sleep 1\<close>, a reading.
\<close>

theorem network_rate_is_counter_delta:
  assumes "psutil_has w ''net_io_counters''"
    and "net_io_counters_1 w = Inr c" and "sleep_1s w = None" and "net_io_counters_2 w = Inr c'"
  shows "get_network_activity w =
           ([Call ''psutil.net_io_counters'', Sleep 1, Call ''psutil.net_io_counters''],
            Inr (Some (nio_bytes_sent c' - nio_bytes_sent c),
                 Some (nio_bytes_recv c' - nio_bytes_recv c))) \<and>
         (psutil_has w ''cpu_percent'' \<and> psutil_has w ''virtual_memory'' \<and>
          psutil_has w ''disk_usage'' \<and> cpu_percent w = Inr p \<and> virtual_memory w = Inr m \<and>
          disk_usage w ''/'' = Inr d \<longrightarrow>
          get_system_usage w =
            ([Call ''psutil.cpu_percent'', Call ''psutil.virtual_memory'',
              Call ''psutil.net_io_counters'', Sleep 1, Call ''psutil.net_io_counters'',
              Call ''psutil.disk_usage''],
             Inr (Some p, Some (vm_percent m), Some (to_gb (vm_total m)),
                  Some (to_gb (vm_available m)),
                  Some (nio_bytes_sent c' - nio_bytes_sent c),
                  Some (nio_bytes_recv c' - nio_bytes_recv c),
                  Some (to_gb (du_total d)), Some (to_gb (du_used d)),
                  Some (to_gb (du_free d)))))"
  using assms
  by (simp add: get_network_activity_def get_network_activity_try_def get_system_usage_def
      get_system_usage_try_def psutil_call_def io_return_def)

text \<open>The spec's example: sent 1000 then 1500, received 2000 then 2600.\<close>

theorem network_rate_example:
  "psutil_has host ''net_io_counters'' \<and>
   net_io_counters_1 host = Inr \<lparr>nio_bytes_sent = 1000, nio_bytes_recv = 2000\<rparr> \<and>
   sleep_1s host = None \<and>
   net_io_counters_2 host = Inr \<lparr>nio_bytes_sent = 1500, nio_bytes_recv = 2600\<rparr> \<and>
   snd (get_network_activity host) = Inr (Some 500, Some 600) \<and>
   fst (snd (snd (snd (snd (projr (snd (get_system_usage host))))))) = Some 500 \<and>
   fst (snd (snd (snd (snd (snd (projr (snd (get_system_usage host)))))))) = Some 600"
  using network_rate_is_counter_delta [of host "\<lparr>nio_bytes_sent = 1000, nio_bytes_recv = 2000\<rparr>"
      "\<lparr>nio_bytes_sent = 1500, nio_bytes_recv = 2600\<rparr>" "25 / 2"
      "\<lparr>vm_total = 17179869184, vm_available = 8589934592, vm_used = 8589934592,
        vm_percent = 50\<rparr>"
      "\<lparr>du_total = 107374182400, du_used = 42949672960, du_free = 64424509440,
        du_percent = 40, du_device = None\<rparr>"]
  by (simp add: host_net psutil_api_def) (simp add: host_def)

section \<open>Evaluating the samplers in the concrete worlds\<close>

lemmas sampler_defs =
  get_local_ip_def get_local_ip_try_def socket_attr_def
  get_cpu_usage_def get_cpu_usage_try_def get_cpu_clock_def get_cpu_clock_try_def
  get_cpu_name_def get_cpu_name_try_def get_ram_usage_def get_ram_usage_try_def
  get_disk_usage_def get_disk_usage_try_def get_network_activity_def
  get_network_activity_try_def psutil_call_def io_return_def io_raise_def

lemmas line_defs =
  console_lines_def ip_line_def cpu_name_line_def cpu_usage_line_def cpu_clock_line_def
  ram_line_def disk_line_def network_line_def truthy_str_def truthy_float_def str_opt_def

lemma snd_io_bind: "snd (io_bind m f) = (case snd m of Inl e \<Rightarrow> Inl e | Inr x \<Rightarrow> snd (f x))"
  by (cases m; cases "snd m") (auto simp: io_bind_def split: prod.splits)

lemma fst_io_bind:
  "fst (io_bind m f) = fst m @ (case snd m of Inl e \<Rightarrow> [] | Inr x \<Rightarrow> fst (f x))"
  by (cases m; cases "snd m") (auto simp: io_bind_def split: prod.splits)

lemma snd_except_Exception:
  "snd (except_Exception m msg a) =
     (case snd m of Inl e \<Rightarrow> if is_Exception e then Inr a else Inl e | Inr x \<Rightarrow> Inr x)"
  by (cases m; cases "snd m") (auto simp: except_Exception_def)

lemma stdout_of_append: "stdout_of (xs @ ys) = stdout_of xs @ stdout_of ys"
  by (simp add: stdout_of_def)

lemma stdout_of_lines: "stdout_of (map (Write Stdout) ls) = ls"
  by (induction ls) (simp_all add: stdout_of_def)

lemma stdout_of_simps:
  "stdout_of [] = []"
  "stdout_of (Call f # es) = stdout_of es"
  "stdout_of (Sleep n # es) = stdout_of es"
  "stdout_of (Append p t # es) = stdout_of es"
  "stdout_of (Write Stdout t # es) = t # stdout_of es"
  "stdout_of (Write Stderr t # es) = stdout_of es"
  by (simp_all add: stdout_of_def)

lemma fmt_2f_values:
  "fmt_2f 16 = ''16.00''" "fmt_2f 8 = ''8.00''" "fmt_2f 50 = ''50.00''"
  "fmt_2f 2400 = ''2400.00''" "fmt_2f 100 = ''100.00''" "fmt_2f 40 = ''40.00''"
  by (simp_all add: fmt_2f_def round_half_even_def show_nat.simps two_digits_def digit_char_def)

lemma str_1dp_value: "str_1dp (25 / 2) = ''12.5''"
  by code_simp

lemma show_int_values: "show_int 500 = ''500''" "show_int 600 = ''600''"
  by (simp_all add: show_int_def show_nat.simps digit_char_def)

lemma to_gb_values:
  "to_gb 17179869184 = 16" "to_gb 8589934592 = 8" "to_gb 107374182400 = 100"
  "to_gb 42949672960 = 40" "to_gb 64424509440 = 60" "to_gb 0 = 0"
  by (simp_all add: to_gb_def)

lemma host_samplers:
  "get_local_ip host =
     ([Write Stdout (''an unexpected error occurred: '' @ no_attribute ''socket'' ''af_inet'')],
      Inr None)"
  "get_cpu_usage host = ([Call ''psutil.cpu_percent''], Inr (Some (25 / 2)))"
  "get_cpu_clock host = ([Call ''psutil.cpu_freq''], Inr (Some 2400))"
  "get_cpu_name host =
     ([Write Stdout (''Error getting CPU name: '' @ no_attribute ''psutil'' ''cpu_info'')],
      Inr None)"
  "get_ram_usage host = ([Call ''psutil.virtual_memory''], Inr (Some 16, Some 8, Some 50))"
  "get_disk_usage host ''/'' =
     ([Call ''psutil.disk_usage'',
       Write Stdout (''error getting disk usage for /: '' @
         no_object_attribute ''sdiskusage'' ''device'')],
      Inr (None, None, None, None))"
  "get_network_activity host =
     ([Call ''psutil.net_io_counters'', Sleep 1, Call ''psutil.net_io_counters''],
      Inr (Some 500, Some 600))"
  by (simp_all add: sampler_defs host_def cpython_socket_def psutil_api_def to_gb_values)

lemma ram_down_samplers:
  "get_local_ip ram_down = get_local_ip host"
  "get_cpu_usage ram_down = get_cpu_usage host"
  "get_cpu_clock ram_down = get_cpu_clock host"
  "get_cpu_name ram_down = get_cpu_name host"
  "get_ram_usage ram_down =
     ([Call ''psutil.virtual_memory'',
       Write Stdout ''error getting ram usage: [Errno 13] Permission denied''],
      Inr (None, None, None))"
  "get_disk_usage ram_down ''/'' = get_disk_usage host ''/''"
  "get_network_activity ram_down = get_network_activity host"
  by (simp_all add: sampler_defs ram_down_def) (simp_all add: host_def psutil_api_def)

lemma mocked_samplers:
  "get_local_ip mocked = ([Call ''socket.connect''], Inr (Some ''192.168.1.10''))"
  "get_cpu_usage mocked = ([Call ''psutil.cpu_percent''], Inr (Some (25 / 2)))"
  "get_cpu_clock mocked = ([Call ''psutil.cpu_freq''], Inr (Some 2400))"
  "get_cpu_name mocked = ([Call ''psutil.cpu_info''], Inr (Some ''Some CPU''))"
  "get_ram_usage mocked = ([Call ''psutil.virtual_memory''], Inr (Some 16, Some 8, Some 50))"
  "get_disk_usage mocked ''/'' =
     ([Call ''psutil.disk_usage''], Inr (Some ''/dev/sda1'', Some 100, Some 40, Some 40))"
  "get_network_activity mocked =
     ([Call ''psutil.net_io_counters'', Sleep 1, Call ''psutil.net_io_counters''],
      Inr (Some 500, Some 600))"
  by (simp_all add: sampler_defs mocked_def host_def to_gb_values)

lemma mocked_snapshot:
  "build_snapshot mocked =
     ([Call ''socket.connect'', Call ''psutil.cpu_percent'', Call ''psutil.cpu_freq'',
       Call ''psutil.cpu_info'', Call ''psutil.virtual_memory'', Call ''psutil.disk_usage'',
       Call ''psutil.net_io_counters'', Sleep 1, Call ''psutil.net_io_counters''],
      Inr populated)"
  by (simp add: build_snapshot_def mocked_samplers io_return_def populated_def)

lemma float_str_mocked: "float_str mocked = str_1dp"
  by (simp add: mocked_def host_def)

lemma populated_lines:
  "console_lines mocked populated =
     [''local ip address: 192.168.1.10'', ''cpu name: Some CPU'', ''cpu usage: 12.5%'',
      ''cpu clock speed: 2400.00 mhz'', ''ram: 8.00 gb / 16.00 gb (50.00%)'',
      ''disk drive (/dev/sda1): 40.00 gb / 100.00 gb (40.00%)'',
      ''network activity: sent: 500 bytes/s, received: 600 bytes/s'']"
  by (simp add: line_defs populated_def float_str_mocked fmt_2f_values str_1dp_value
      show_int_values)

lemma display_without_log:
  "build_snapshot w = (es, Inr s) \<Longrightarrow> \<not> truthy_str (log_opt a) \<Longrightarrow>
   display_system_info w a = (es @ map (Write Stdout) (console_lines w s), Inr ())"
  by (simp add: display_system_info_def print_lines_def io_return_def)

lemma host_world:
  "sock_local_addr host (''8.8.8.8'', 80) = Inr ''192.168.1.10''"
  "cpu_percent host = Inr (25 / 2)"
  "psutil_has host = psutil_api"
  "socket_has host = cpython_socket"
  "sleep_interval host = None"
  "sleep_1s host = None"
  by (simp_all add: host_def)

lemma host_snapshot:
  "snd (build_snapshot host) =
     Inr \<lparr>ip_address = None, cpu_usage = Some (25 / 2), cpu_clock = Some 2400, cpu_name = None,
          ram_total = Some 16, ram_used = Some 8, ram_percent = Some 50,
          disk_device = None, disk_total = None, disk_used = None, disk_percent = None,
          bytes_sent = Some 500, bytes_recv = Some 600\<rparr>"
  by (simp add: build_snapshot_def host_samplers io_return_def)

lemma ram_down_snapshot:
  "snd (build_snapshot ram_down) =
     Inr \<lparr>ip_address = None, cpu_usage = Some (25 / 2), cpu_clock = Some 2400, cpu_name = None,
          ram_total = None, ram_used = None, ram_percent = None,
          disk_device = None, disk_total = None, disk_used = None, disk_percent = None,
          bytes_sent = Some 500, bytes_recv = Some 600\<rparr>"
  by (simp add: build_snapshot_def ram_down_samplers host_samplers io_return_def)

lemma strftime_ram_down: "snd (now_strftime ram_down f) = Inr ''2026-11-04 12:00:00''"
  by (simp add: now_strftime_def ram_down_def host_def)

lemma display_ram_down:
  "snd (display_system_info ram_down one_shot_log) =
     Inl (TypeError ''unsupported format string passed to NoneType.__format__'')"
  by (simp add: display_system_info_def snd_io_bind ram_down_snapshot
      print_lines_def one_shot_log_def truthy_str_def write_log_def strftime_ram_down
      log_entry_def out_bind_def fmt_2f_opt_def)

lemma fmt_2f_opt_Some: "fmt_2f_opt (Some x) = Inr (fmt_2f x)"
  by (simp add: fmt_2f_opt_def)

lemma host_system_usage:
  "snd (get_system_usage host) =
     Inr (Some (25 / 2), Some 50, Some 16, Some 8, Some 500, Some 600, Some 100, Some 40, Some 60)"
  by (simp add: get_system_usage_def get_system_usage_try_def host_def
      psutil_call_def psutil_api_def io_return_def to_gb_values)

lemma host_log_system_usage: "snd (log_system_usage host f) = Inr ()"
  by (simp add: log_system_usage_def snd_io_bind host_system_usage now_strftime_def
      sysmon_log_entry_def out_bind_def fmt_2f_opt_Some snd_except_Exception file_append_def
      print_def split: sum.splits option.splits) (simp add: host_def)

lemma while_True_first:
  "snd (body w) = Inl e \<Longrightarrow> while_True body (w # ws) = Some (fst (body w), e)"
  by (cases "body w") simp

section \<open>The local address\<close>

text \<open>
  Claim C7 says that \<^verbatim>\<open>get_local_ip\<close> returns the local address whenever no network
  error occurs. On the healthy host the network answers, but the function names
  \<^verbatim>\<open>socket.af_inet\<close>, which the \<^verbatim>\<open>socket\<close> module does not define (it defines
  \<^verbatim>\<open>AF_INET\<close>): the lookup raises \<^verbatim>\<open>AttributeError\<close> before any socket is opened,
  the catch-all handler prints it, and the result is \<^verbatim>\<open>None\<close>.
\<close>

theorem local_ip_absent_without_network_error:
  "sock_local_addr host (''8.8.8.8'', 80) = Inr ''192.168.1.10'' \<and>
   get_local_ip host =
     ([Write Stdout (''an unexpected error occurred: '' @ no_attribute ''socket'' ''af_inet'')],
      Inr None)"
  by (simp add: host_samplers host_world)

section \<open>Rendering\<close>

text \<open>
  Claim C2 says that rendering already-resolved values never raises, absent field
  groups included. With \<^verbatim>\<open>--log\<close> and an absent RAM reading the f-string of the log
  entry applies \<^verbatim>\<open>:.2f\<close> to \<^verbatim>\<open>None\<close>: \<^verbatim>\<open>display_system_info\<close> raises \<^verbatim>\<open>TypeError\<close>
  before the file is opened, outside the \<^verbatim>\<open>try\<close> that guards the append.
\<close>

theorem log_rendering_raises_on_absent_ram:
  "snd (get_ram_usage ram_down) = Inr (None, None, None) \<and>
   snd (display_system_info ram_down one_shot_log) =
     Inl (TypeError ''unsupported format string passed to NoneType.__format__'')"
  by (simp add: display_ram_down ram_down_samplers)





section \<open>One-shot mode\<close>

text \<open>
  Behind the test doubles and without \<^verbatim>\<open>--log\<close>, a one-shot run calls every query
  once (the network counters twice, one second apart), prints the seven console lines
  once and ends with exit code 0.
\<close>

lemma one_shot_pass_behind_doubles:
  "calls_of (fst (display_system_info mocked one_shot)) =
     [''socket.connect'', ''psutil.cpu_percent'', ''psutil.cpu_freq'', ''psutil.cpu_info'',
      ''psutil.virtual_memory'', ''psutil.disk_usage'', ''psutil.net_io_counters'',
      ''psutil.net_io_counters''] \<and>
   stdout_of (fst (display_system_info mocked one_shot)) = console_lines mocked populated \<and>
   clisysmtr one_shot mocked [] =
     Some (fst (display_system_info mocked one_shot), Exit 0)"
proof -
  have "\<not> truthy_str (log_opt one_shot)"
    by (simp add: one_shot_def truthy_str_def)
  from display_without_log [OF mocked_snapshot this]
  have d: "display_system_info mocked one_shot =
      ([Call ''socket.connect'', Call ''psutil.cpu_percent'', Call ''psutil.cpu_freq'',
        Call ''psutil.cpu_info'', Call ''psutil.virtual_memory'', Call ''psutil.disk_usage'',
        Call ''psutil.net_io_counters'', Sleep 1, Call ''psutil.net_io_counters''] @
       map (Write Stdout) (console_lines mocked populated), Inr ())" .
  have c: "calls_of (map (Write Stdout) ls) = []" for ls
    by (induction ls) (simp_all add: calls_of_def)
  have "calls_of (xs @ ys) = calls_of xs @ calls_of ys" for xs ys
    by (simp add: calls_of_def)
  with c d show ?thesis
    by (simp add: clisysmtr_def main_def one_shot_def stdout_of_append stdout_of_lines
        stdout_of_simps) (simp add: calls_of_def)
qed

text \<open>
  Claim C9 says that \<^verbatim>\<open>--no-loop\<close> runs the pipeline once and ends with exit code 0.
  \<^verbatim>\<open>main\<close> calls \<^verbatim>\<open>display_system_info\<close> outside any \<^verbatim>\<open>try\<close>: with \<^verbatim>\<open>--log\<close> and
  an absent RAM reading the \<^verbatim>\<open>TypeError\<close> of the log entry ends the process uncaught.
\<close>

theorem one_shot_with_log_ends_uncaught:
  "no_loop one_shot_log \<and>
   map_option snd (clisysmtr one_shot_log ram_down []) =
     Some (Uncaught (TypeError ''unsupported format string passed to NoneType.__format__''))"
proof -
  have "no_loop one_shot_log"
    by (simp add: one_shot_log_def)
  with display_ram_down show ?thesis
    by (simp add: clisysmtr_def main_def case_prod_beta)
qed

section \<open>General facts about snapshots, output and loops\<close>

lemma build_snapshot_fields:
  assumes "build_snapshot w = (es, Inr s)"
  shows "snd (get_local_ip w) = Inr (ip_address s)"
    and "snd (get_cpu_usage w) = Inr (cpu_usage s)"
    and "snd (get_cpu_clock w) = Inr (cpu_clock s)"
    and "snd (get_cpu_name w) = Inr (cpu_name s)"
    and "snd (get_ram_usage w) = Inr (ram_total s, ram_used s, ram_percent s)"
    and "snd (get_disk_usage w ''/'') = Inr (disk_device s, disk_total s, disk_used s, disk_percent s)"
    and "snd (get_network_activity w) = Inr (bytes_sent s, bytes_recv s)"
proof -
  from assms have "snd (build_snapshot w) = Inr s"
    by simp
  then have
    "snd (get_local_ip w) = Inr (ip_address s) \<and>
     snd (get_cpu_usage w) = Inr (cpu_usage s) \<and>
     snd (get_cpu_clock w) = Inr (cpu_clock s) \<and>
     snd (get_cpu_name w) = Inr (cpu_name s) \<and>
     snd (get_ram_usage w) = Inr (ram_total s, ram_used s, ram_percent s) \<and>
     snd (get_disk_usage w ''/'') = Inr (disk_device s, disk_total s, disk_used s, disk_percent s) \<and>
     snd (get_network_activity w) = Inr (bytes_sent s, bytes_recv s)"
    by (auto simp: build_snapshot_def snd_io_bind io_return_def split: sum.splits prod.splits)
  then show "snd (get_local_ip w) = Inr (ip_address s)"
    and "snd (get_cpu_usage w) = Inr (cpu_usage s)"
    and "snd (get_cpu_clock w) = Inr (cpu_clock s)"
    and "snd (get_cpu_name w) = Inr (cpu_name s)"
    and "snd (get_ram_usage w) = Inr (ram_total s, ram_used s, ram_percent s)"
    and "snd (get_disk_usage w ''/'') = Inr (disk_device s, disk_total s, disk_used s, disk_percent s)"
    and "snd (get_network_activity w) = Inr (bytes_sent s, bytes_recv s)"
    by simp_all
qed

lemma display_prints_console_lines:
  assumes "build_snapshot w = (es, Inr s)"
  shows "set (console_lines w s) \<subseteq> set (stdout_of (fst (display_system_info w a)))"
  using assms
  by (auto simp: display_system_info_def print_lines_def fst_io_bind stdout_of_append
      stdout_of_lines)

lemma get_cpu_name_missing:
  "\<not> psutil_has w ''cpu_info'' \<Longrightarrow>
   get_cpu_name w =
     ([Write Stdout (''Error getting CPU name: '' @ no_attribute ''psutil'' ''cpu_info'')],
      Inr None)"
  by (simp add: get_cpu_name_def get_cpu_name_try_def psutil_call_def io_raise_def)

lemma host_build_snapshot_ex: "\<exists>es. build_snapshot host = (es, Inr
     \<lparr>ip_address = None, cpu_usage = Some (25 / 2), cpu_clock = Some 2400, cpu_name = None,
          ram_total = Some 16, ram_used = Some 8, ram_percent = Some 50,
          disk_device = None, disk_total = None, disk_used = None, disk_percent = None,
          bytes_sent = Some 500, bytes_recv = Some 600\<rparr>)"
  using host_snapshot by (cases "build_snapshot host") simp

lemma fst_except_Exception:
  "fst (except_Exception m msg a) =
     fst m @ (case snd m of Inl e \<Rightarrow> if is_Exception e then [Write Stdout (msg e)] else []
              | Inr x \<Rightarrow> [])"
  by (cases m; cases "snd m") (auto simp: except_Exception_def)

lemma stderr_of_append: "stderr_of (xs @ ys) = stderr_of xs @ stderr_of ys"
  by (simp add: stderr_of_def)

lemma stderr_of_simps:
  "stderr_of [] = []"
  "stderr_of (Call f # es) = stderr_of es"
  "stderr_of (Sleep n # es) = stderr_of es"
  "stderr_of (Append p t # es) = stderr_of es"
  "stderr_of (Write Stdout t # es) = stderr_of es"
  "stderr_of (Write Stderr t # es) = t # stderr_of es"
  by (simp_all add: stderr_of_def)

lemma stderr_psutil_call: "stderr_of (fst (psutil_call w f r)) = []"
  by (simp add: psutil_call_def io_raise_def stderr_of_simps)

lemma stderr_time_sleep: "stderr_of (fst (time_sleep n r)) = []"
  by (simp add: time_sleep_def io_raise_def stderr_of_simps)

lemma stderr_io_return: "stderr_of (fst (io_return x)) = []" "stderr_of (fst (io_raise e)) = []"
  by (simp_all add: io_return_def io_raise_def stderr_of_simps)

lemmas stderr_rules =
  fst_except_Exception fst_io_bind stderr_of_append stderr_of_simps stderr_psutil_call
  stderr_time_sleep stderr_io_return

lemma samplers_write_no_stderr:
  "stderr_of (fst (get_local_ip w)) = []"
  "stderr_of (fst (get_cpu_usage w)) = []"
  "stderr_of (fst (get_cpu_clock w)) = []"
  "stderr_of (fst (get_cpu_name w)) = []"
  "stderr_of (fst (get_ram_usage w)) = []"
  "stderr_of (fst (get_disk_usage w path)) = []"
  "stderr_of (fst (get_network_activity w)) = []"
  "stderr_of (fst (get_system_usage w)) = []"
proof -
  show "stderr_of (fst (get_local_ip w)) = []"
    by (simp add: get_local_ip_def get_local_ip_try_def socket_attr_def io_return_def
        io_raise_def stderr_of_simps stderr_of_append split: sum.splits)
  show "stderr_of (fst (get_cpu_usage w)) = []"
    by (simp add: get_cpu_usage_def get_cpu_usage_try_def stderr_rules split: sum.splits)
  show "stderr_of (fst (get_cpu_clock w)) = []"
    by (simp add: get_cpu_clock_def get_cpu_clock_try_def stderr_rules split: sum.splits)
  show "stderr_of (fst (get_cpu_name w)) = []"
    by (simp add: get_cpu_name_def get_cpu_name_try_def stderr_rules split: sum.splits)
  show "stderr_of (fst (get_ram_usage w)) = []"
    by (simp add: get_ram_usage_def get_ram_usage_try_def stderr_rules split: sum.splits)
  show "stderr_of (fst (get_disk_usage w path)) = []"
    by (simp add: get_disk_usage_def get_disk_usage_try_def stderr_rules
        split: sum.splits option.splits)
  show "stderr_of (fst (get_network_activity w)) = []"
    by (simp add: get_network_activity_def get_network_activity_try_def stderr_rules
        split: sum.splits)
  show "stderr_of (fst (get_system_usage w)) = []"
    by (simp add: get_system_usage_def get_system_usage_try_def stderr_rules
        split: sum.splits)
qed

lemma ram_down_try:
  "get_ram_usage_try ram_down =
     ([Call ''psutil.virtual_memory''], Inl (OSError ''[Errno 13] Permission denied''))"
  by (simp add: get_ram_usage_try_def psutil_call_def ram_down_def host_def psutil_api_def)

lemma disk_down_try:
  "get_system_usage_try disk_down =
     ([Call ''psutil.cpu_percent'', Call ''psutil.virtual_memory'',
       Call ''psutil.net_io_counters'', Sleep 1, Call ''psutil.net_io_counters'',
       Call ''psutil.disk_usage''], Inl (OSError ''[Errno 13] Permission denied''))"
  by (simp add: get_system_usage_try_def psutil_call_def disk_down_def host_def psutil_api_def)

lemma snd_display_no_log:
  "\<not> truthy_str (log_opt a) \<Longrightarrow>
   snd (display_system_info w a) =
     (case snd (build_snapshot w) of Inl e \<Rightarrow> Inl e | Inr s \<Rightarrow> Inr ())"
  by (simp add: display_system_info_def snd_io_bind print_lines_def io_return_def
      split: sum.splits)

lemma host_display: "\<not> truthy_str (log_opt a) \<Longrightarrow> snd (display_system_info host a) = Inr ()"
  by (simp add: snd_display_no_log host_snapshot)

lemma loop_body_negative:
  "snd (loop_body negative_interval host) = Inl (ValueError ''sleep length must be non-negative'')"
  by (simp add: loop_body_def snd_io_bind host_display negative_interval_def truthy_str_def
      time_sleep_def io_raise_def)

lemma loop_body_interrupted: "snd (loop_body continuous interrupted) = Inl KeyboardInterrupt"
proof -
  have "build_snapshot interrupted = build_snapshot host"
    by (simp add: build_snapshot_def sampler_defs interrupted_def)
  then have "snd (display_system_info interrupted continuous) = Inr ()"
    by (simp add: snd_display_no_log host_snapshot continuous_def truthy_str_def)
  then show ?thesis
    by (simp add: loop_body_def snd_io_bind time_sleep_def continuous_def interrupted_def)
qed

section \<open>The CPU name\<close>

text \<open>
  Claim C10. \<^verbatim>\<open>get_cpu_name\<close> calls \<^verbatim>\<open>psutil.cpu_info\<close>. When \<^verbatim>\<open>psutil\<close> defines no
  such attribute, as is the case for the released library, the lookup raises
  \<^verbatim>\<open>AttributeError\<close> into the catch-all handler on every call: the function prints the
  error and returns \<^verbatim>\<open>None\<close>, whatever the rest of the world answers, and every
  snapshot that \<^verbatim>\<open>display_system_info\<close> builds renders the CPU-name failure line.
\<close>

theorem cpu_name_always_absent:
  assumes "\<not> psutil_has w ''cpu_info''"
  shows "get_cpu_name w =
           ([Write Stdout (''Error getting CPU name: '' @ no_attribute ''psutil'' ''cpu_info'')],
            Inr None) \<and>
         (\<forall>es s a. build_snapshot w = (es, Inr s) \<longrightarrow>
            cpu_name s = None \<and>
            console_lines w s ! 1 = ''failed to retrieve cpu name.'' \<and>
            ''failed to retrieve cpu name.'' \<in> set (stdout_of (fst (display_system_info w a))))"
proof (intro conjI allI impI)
  show "get_cpu_name w =
      ([Write Stdout (''Error getting CPU name: '' @ no_attribute ''psutil'' ''cpu_info'')],
       Inr None)"
    using assms by (rule get_cpu_name_missing)
next
  fix es s a
  assume b: "build_snapshot w = (es, Inr s)"
  from build_snapshot_fields(4) [OF b] get_cpu_name_missing [OF assms]
  show none: "cpu_name s = None"
    by simp
  then show line: "console_lines w s ! 1 = ''failed to retrieve cpu name.''"
    by (simp add: console_lines_def cpu_name_line_def truthy_str_def)
  have "console_lines w s ! 1 \<in> set (console_lines w s)"
    by (simp add: console_lines_def)
  with line display_prints_console_lines [OF b, of a]
  show "''failed to retrieve cpu name.'' \<in> set (stdout_of (fst (display_system_info w a)))"
    by auto
qed

text \<open>On the healthy host: \<^verbatim>\<open>psutil\<close> has no \<^verbatim>\<open>cpu_info\<close>, and the failure line is printed.\<close>

theorem cpu_name_absent_on_host:
  "\<not> psutil_has host ''cpu_info'' \<and>
   snd (get_cpu_name host) = Inr None \<and>
   ''failed to retrieve cpu name.'' \<in> set (stdout_of (fst (display_system_info host one_shot)))"
proof -
  have h: "\<not> psutil_has host ''cpu_info''"
    by (simp add: host_world psutil_api_def)
  obtain es where "build_snapshot host = (es, Inr
     \<lparr>ip_address = None, cpu_usage = Some (25 / 2), cpu_clock = Some 2400, cpu_name = None,
          ram_total = Some 16, ram_used = Some 8, ram_percent = Some 50,
          disk_device = None, disk_total = None, disk_used = None, disk_percent = None,
          bytes_sent = Some 500, bytes_recv = Some 600\<rparr>)"
    using host_build_snapshot_ex by blast
  with h cpu_name_always_absent [OF h] show ?thesis
    by simp
qed

section \<open>The RAM line\<close>

text \<open>
  Claim C4 asks for the console line \<^verbatim>\<open>RAM: 8.00 GB / 16.00 GB (50.00%)\<close>, character for
  character. The f-string of the source is in lower case, so that line is never printed:
  behind the test doubles, with the reading 16 GB, 8 GB and 50.0, no line of the output
  is the capitalised one.
\<close>

theorem ram_line_is_not_capitalised:
  "snd (get_ram_usage mocked) = Inr (Some 16, Some 8, Some 50) \<and>
   ''RAM: 8.00 GB / 16.00 GB (50.00%)'' \<notin>
     set (stdout_of (fst (display_system_info mocked one_shot)))"
proof -
  have "\<not> truthy_str (log_opt one_shot)"
    by (simp add: one_shot_def truthy_str_def)
  from display_without_log [OF mocked_snapshot this]
  show ?thesis
    by (simp add: mocked_samplers stdout_of_append stdout_of_lines stdout_of_simps
        populated_lines)
qed

text \<open>
  Claim C4, amended: for a snapshot whose RAM reading is total 16.00 GB, used 8.00 GB
  and 50.0 percent, the console renderer emits exactly the line
  \<^verbatim>\<open>ram: 8.00 gb / 16.00 gb (50.00%)\<close>, in lower case, as its fifth line.
\<close>

theorem ram_line_text:
  assumes "ram_total s = Some 16" and "ram_used s = Some 8" and "ram_percent s = Some 50"
  shows "ram_line s = ''ram: 8.00 gb / 16.00 gb (50.00%)'' \<and>
         console_lines w s ! 4 = ''ram: 8.00 gb / 16.00 gb (50.00%)'' \<and>
         (\<forall>es a. build_snapshot w = (es, Inr s) \<longrightarrow>
            ''ram: 8.00 gb / 16.00 gb (50.00%)'' \<in>
              set (stdout_of (fst (display_system_info w a))))"
proof -
  have r: "ram_line s = ''ram: 8.00 gb / 16.00 gb (50.00%)''"
    using assms by (simp add: ram_line_def fmt_2f_values)
  then have c: "console_lines w s ! 4 = ''ram: 8.00 gb / 16.00 gb (50.00%)''"
    by (simp add: console_lines_def)
  have "console_lines w s ! 4 \<in> set (console_lines w s)"
    by (simp add: console_lines_def)
  with c have "\<And>es a. build_snapshot w = (es, Inr s) \<Longrightarrow>
      ''ram: 8.00 gb / 16.00 gb (50.00%)'' \<in> set (stdout_of (fst (display_system_info w a)))"
    using display_prints_console_lines by fastforce
  with r c show ?thesis
    by blast
qed

text \<open>The amended claim on the snapshot that the test doubles give.\<close>

theorem ram_line_text_mocked:
  "ram_total populated = Some 16 \<and> ram_used populated = Some 8 \<and>
   ram_percent populated = Some 50 \<and>
   snd (build_snapshot mocked) = Inr populated \<and>
   console_lines mocked populated ! 4 = ''ram: 8.00 gb / 16.00 gb (50.00%)'' \<and>
   ''ram: 8.00 gb / 16.00 gb (50.00%)'' \<in>
     set (stdout_of (fst (display_system_info mocked one_shot)))"
proof -
  have p: "ram_total populated = Some 16" "ram_used populated = Some 8"
    "ram_percent populated = Some 50"
    by (simp_all add: populated_def)
  from ram_line_text [OF p, of mocked] mocked_snapshot p show ?thesis
    by simp
qed

section \<open>Where a sampler reports a failure\<close>

text \<open>
  Claim C8 says that a failing sampler writes the reason to standard error. Every
  handler uses \<^verbatim>\<open>print\<close> without \<^verbatim>\<open>file=\<close>: when the memory query is refused, the
  reason goes to standard output and nothing is written to standard error.
\<close>

theorem ram_failure_goes_to_stdout:
  "get_ram_usage ram_down =
     ([Call ''psutil.virtual_memory'',
       Write Stdout ''error getting ram usage: [Errno 13] Permission denied''],
      Inr (None, None, None)) \<and>
   stderr_of (fst (get_ram_usage ram_down)) = []"
  by (simp add: ram_down_samplers stderr_of_def)

text \<open>
  Claim C8, amended: for every sampler of clisysmtr.py and for \<^verbatim>\<open>get_system_usage\<close> of
  sysmon.py, when the acquisition (the body of the \<^verbatim>\<open>try\<close>) raises an \<^verbatim>\<open>Exception\<close>,
  the sampler prints the reason to standard output, after the effects of the body, and
  returns the absence marker instead of raising; no sampler ever writes to standard
  error; and \<^verbatim>\<open>get_cpu_clock\<close> on a platform without \<^verbatim>\<open>psutil.cpu_freq\<close> returns the
  absence marker without printing anything.
\<close>

theorem sampler_failure_policy:
  assumes "is_Exception e"
  shows
    "(get_local_ip_try w = (es, Inl e) \<and> socket_has w ''error'' \<longrightarrow>
        get_local_ip w =
          (es @ [Write Stdout ((if is_socket_error e then ''error getting local ip: ''
                                else ''an unexpected error occurred: '') @ exn_str e)],
           Inr None)) \<and>
     (get_cpu_usage_try w = (es, Inl e) \<longrightarrow>
        get_cpu_usage w =
          (es @ [Write Stdout (''error getting cpu usage: '' @ exn_str e)], Inr None)) \<and>
     (get_cpu_clock_try w = (es, Inl e) \<longrightarrow>
        get_cpu_clock w =
          (es @ [Write Stdout (''error getting cpu clock speed: '' @ exn_str e)], Inr None)) \<and>
     (\<not> psutil_has w ''cpu_freq'' \<longrightarrow> get_cpu_clock w = ([], Inr None)) \<and>
     (get_cpu_name_try w = (es, Inl e) \<longrightarrow>
        get_cpu_name w =
          (es @ [Write Stdout (''Error getting CPU name: '' @ exn_str e)], Inr None)) \<and>
     (get_ram_usage_try w = (es, Inl e) \<longrightarrow>
        get_ram_usage w =
          (es @ [Write Stdout (''error getting ram usage: '' @ exn_str e)],
           Inr (None, None, None))) \<and>
     (get_disk_usage_try w path = (es, Inl e) \<longrightarrow>
        get_disk_usage w path =
          (es @ [Write Stdout (''error getting disk usage for '' @ path @ '': '' @ exn_str e)],
           Inr (None, None, None, None))) \<and>
     (get_network_activity_try w = (es, Inl e) \<longrightarrow>
        get_network_activity w =
          (es @ [Write Stdout (''error getting network activity: '' @ exn_str e)],
           Inr (None, None))) \<and>
     (get_system_usage_try w = (es, Inl e) \<longrightarrow>
        get_system_usage w =
          (es @ [Write Stdout (''Error getting system usage: '' @ exn_str e)],
           Inr (None, None, None, None, None, None, None, None, None))) \<and>
     stderr_of (fst (get_local_ip w)) = [] \<and>
     stderr_of (fst (get_cpu_usage w)) = [] \<and>
     stderr_of (fst (get_cpu_clock w)) = [] \<and>
     stderr_of (fst (get_cpu_name w)) = [] \<and>
     stderr_of (fst (get_ram_usage w)) = [] \<and>
     stderr_of (fst (get_disk_usage w path)) = [] \<and>
     stderr_of (fst (get_network_activity w)) = [] \<and>
     stderr_of (fst (get_system_usage w)) = []"
proof -
  have ip: "get_local_ip_try w = (es, Inl e) \<and> socket_has w ''error'' \<longrightarrow>
        get_local_ip w =
          (es @ [Write Stdout ((if is_socket_error e then ''error getting local ip: ''
                                else ''an unexpected error occurred: '') @ exn_str e)],
           Inr None)"
    using assms by (simp add: get_local_ip_def)
  have usage: "get_cpu_usage_try w = (es, Inl e) \<longrightarrow>
        get_cpu_usage w =
          (es @ [Write Stdout (''error getting cpu usage: '' @ exn_str e)], Inr None)"
    using assms by (simp add: get_cpu_usage_def)
  have clock: "get_cpu_clock_try w = (es, Inl e) \<longrightarrow>
        get_cpu_clock w =
          (es @ [Write Stdout (''error getting cpu clock speed: '' @ exn_str e)], Inr None)"
    using assms by (simp add: get_cpu_clock_def)
  have unsupported: "\<not> psutil_has w ''cpu_freq'' \<longrightarrow> get_cpu_clock w = ([], Inr None)"
    by (simp add: get_cpu_clock_def get_cpu_clock_try_def io_return_def)
  have name: "get_cpu_name_try w = (es, Inl e) \<longrightarrow>
        get_cpu_name w =
          (es @ [Write Stdout (''Error getting CPU name: '' @ exn_str e)], Inr None)"
    using assms by (simp add: get_cpu_name_def)
  have ram: "get_ram_usage_try w = (es, Inl e) \<longrightarrow>
        get_ram_usage w =
          (es @ [Write Stdout (''error getting ram usage: '' @ exn_str e)],
           Inr (None, None, None))"
    using assms by (simp add: get_ram_usage_def)
  have disk: "get_disk_usage_try w path = (es, Inl e) \<longrightarrow>
        get_disk_usage w path =
          (es @ [Write Stdout (''error getting disk usage for '' @ path @ '': '' @ exn_str e)],
           Inr (None, None, None, None))"
    using assms by (simp add: get_disk_usage_def)
  have net: "get_network_activity_try w = (es, Inl e) \<longrightarrow>
        get_network_activity w =
          (es @ [Write Stdout (''error getting network activity: '' @ exn_str e)],
           Inr (None, None))"
    using assms by (simp add: get_network_activity_def)
  have sys: "get_system_usage_try w = (es, Inl e) \<longrightarrow>
        get_system_usage w =
          (es @ [Write Stdout (''Error getting system usage: '' @ exn_str e)],
           Inr (None, None, None, None, None, None, None, None, None))"
    using assms by (simp add: get_system_usage_def)
  show ?thesis
    by (intro conjI)
      (rule ip usage clock unsupported name ram disk net sys samplers_write_no_stderr)+
qed

text \<open>The amended claim where the memory query, and for sysmon.py the disk query, is
  refused.\<close>

theorem sampler_failure_policy_on_hosts:
  "is_Exception (OSError ''[Errno 13] Permission denied'') \<and>
   get_ram_usage_try ram_down =
     ([Call ''psutil.virtual_memory''], Inl (OSError ''[Errno 13] Permission denied'')) \<and>
   get_ram_usage ram_down =
     ([Call ''psutil.virtual_memory'',
       Write Stdout ''error getting ram usage: [Errno 13] Permission denied''],
      Inr (None, None, None)) \<and>
   stderr_of (fst (get_ram_usage ram_down)) = [] \<and>
   get_system_usage disk_down =
     ([Call ''psutil.cpu_percent'', Call ''psutil.virtual_memory'',
       Call ''psutil.net_io_counters'', Sleep 1, Call ''psutil.net_io_counters'',
       Call ''psutil.disk_usage'',
       Write Stdout ''Error getting system usage: [Errno 13] Permission denied''],
      Inr (None, None, None, None, None, None, None, None, None))"
proof -
  have e: "is_Exception (OSError ''[Errno 13] Permission denied'')"
    by simp
  have ram: "get_ram_usage_try ram_down =
        ([Call ''psutil.virtual_memory''], Inl (OSError ''[Errno 13] Permission denied'')) \<longrightarrow>
      get_ram_usage ram_down =
        ([Call ''psutil.virtual_memory''] @
         [Write Stdout (''error getting ram usage: '' @
            exn_str (OSError ''[Errno 13] Permission denied''))],
         Inr (None, None, None))"
    and quiet: "stderr_of (fst (get_ram_usage ram_down)) = []"
    using sampler_failure_policy [OF e, of ram_down "[Call ''psutil.virtual_memory'']" "''/''",
        THEN conjunct2, THEN conjunct2, THEN conjunct2, THEN conjunct2, THEN conjunct2, THEN conjunct1]
      sampler_failure_policy [OF e, of ram_down "[Call ''psutil.virtual_memory'']" "''/''",
        THEN conjunct2, THEN conjunct2, THEN conjunct2, THEN conjunct2, THEN conjunct2, THEN conjunct2, THEN conjunct2, THEN conjunct2, THEN conjunct2, THEN conjunct2, THEN conjunct2, THEN conjunct2, THEN conjunct2, THEN conjunct1]
    by this+
  have sys: "get_system_usage_try disk_down =
        ([Call ''psutil.cpu_percent'', Call ''psutil.virtual_memory'',
          Call ''psutil.net_io_counters'', Sleep 1, Call ''psutil.net_io_counters'',
          Call ''psutil.disk_usage''], Inl (OSError ''[Errno 13] Permission denied'')) \<longrightarrow>
      get_system_usage disk_down =
        ([Call ''psutil.cpu_percent'', Call ''psutil.virtual_memory'',
          Call ''psutil.net_io_counters'', Sleep 1, Call ''psutil.net_io_counters'',
          Call ''psutil.disk_usage''] @
         [Write Stdout (''Error getting system usage: '' @
            exn_str (OSError ''[Errno 13] Permission denied''))],
         Inr (None, None, None, None, None, None, None, None, None))"
    using sampler_failure_policy [OF e, of disk_down
      "[Call ''psutil.cpu_percent'', Call ''psutil.virtual_memory'',
        Call ''psutil.net_io_counters'', Sleep 1, Call ''psutil.net_io_counters'',
        Call ''psutil.disk_usage'']" "''/''", THEN conjunct2, THEN conjunct2, THEN conjunct2, THEN conjunct2, THEN conjunct2, THEN conjunct2, THEN conjunct2, THEN conjunct2, THEN conjunct1]
    by this
  from ram quiet sys show ?thesis
    by (simp add: ram_down_try disk_down_try)
qed

section \<open>Failures and the categories of a snapshot\<close>

lemma snd_get_local_ip:
  "snd (get_local_ip w) =
     (case snd (get_local_ip_try w) of
        Inr ip \<Rightarrow> Inr (Some ip)
      | Inl e \<Rightarrow>
          if \<not> socket_has w ''error''
          then Inl (AttributeError (no_attribute ''socket'' ''error''))
          else if is_socket_error e \<or> is_Exception e then Inr None else Inl e)"
  by (cases "get_local_ip_try w"; cases "snd (get_local_ip_try w)")
    (auto simp: get_local_ip_def)

lemma snd_psutil_call:
  "snd (psutil_call w f r) =
     (if psutil_has w f then r else Inl (AttributeError (no_attribute ''psutil'' f)))"
  by (simp add: psutil_call_def io_raise_def)

lemma snd_time_sleep_1:
  "snd (time_sleep 1 r) = (case r of None \<Rightarrow> Inr () | Some e \<Rightarrow> Inl e)"
  by (simp add: time_sleep_def)

lemma snd_io_return: "snd (io_return x) = Inr x" "snd (io_raise e) = Inl e"
  by (simp_all add: io_return_def io_raise_def)

lemmas snd_rules =
  snd_io_bind snd_except_Exception snd_psutil_call snd_time_sleep_1 snd_io_return

lemma samplers_return:
  assumes "no_interrupt w"
  shows "\<exists>v. snd (get_local_ip w) = Inr v"
    and "\<exists>v. snd (get_cpu_usage w) = Inr v"
    and "\<exists>v. snd (get_cpu_clock w) = Inr v"
    and "\<exists>v. snd (get_cpu_name w) = Inr v"
    and "\<exists>v. snd (get_ram_usage w) = Inr v"
    and "\<exists>v. snd (get_disk_usage w ''/'') = Inr v"
    and "\<exists>v. snd (get_network_activity w) = Inr v"
proof -
  show "\<exists>v. snd (get_local_ip w) = Inr v"
    using assms
    by (auto simp: snd_get_local_ip get_local_ip_try_def socket_attr_def snd_rules
        no_interrupt_def caught_def split: sum.splits)
  show "\<exists>v. snd (get_cpu_usage w) = Inr v"
    using assms
    by (auto simp: get_cpu_usage_def get_cpu_usage_try_def snd_rules
        no_interrupt_def caught_def split: sum.splits)
  show "\<exists>v. snd (get_cpu_clock w) = Inr v"
    using assms
    by (auto simp: get_cpu_clock_def get_cpu_clock_try_def snd_rules
        no_interrupt_def caught_def split: sum.splits)
  show "\<exists>v. snd (get_cpu_name w) = Inr v"
    using assms
    by (auto simp: get_cpu_name_def get_cpu_name_try_def snd_rules
        no_interrupt_def caught_def split: sum.splits)
  show "\<exists>v. snd (get_ram_usage w) = Inr v"
    using assms
    by (auto simp: get_ram_usage_def get_ram_usage_try_def snd_rules
        no_interrupt_def caught_def split: sum.splits)
  show "\<exists>v. snd (get_disk_usage w ''/'') = Inr v"
    using assms
    by (auto simp: get_disk_usage_def get_disk_usage_try_def snd_rules
        no_interrupt_def caught_def split: sum.splits option.splits)
  show "\<exists>v. snd (get_network_activity w) = Inr v"
    using assms
    by (auto simp: get_network_activity_def get_network_activity_try_def snd_rules
        no_interrupt_def caught_def split: sum.splits option.splits)
qed

lemma snapshot_of_samplers:
  assumes "snd (get_local_ip w) = Inr ip" and "snd (get_cpu_usage w) = Inr cu"
    and "snd (get_cpu_clock w) = Inr cc" and "snd (get_cpu_name w) = Inr cn"
    and "snd (get_ram_usage w) = Inr rm" and "snd (get_disk_usage w ''/'') = Inr dk"
    and "snd (get_network_activity w) = Inr nt"
  shows "snapshot_of w =
    Some \<lparr>ip_address = ip, cpu_usage = cu, cpu_clock = cc, cpu_name = cn,
          ram_total = fst rm, ram_used = fst (snd rm), ram_percent = snd (snd rm),
          disk_device = fst dk, disk_total = fst (snd dk), disk_used = fst (snd (snd dk)),
          disk_percent = snd (snd (snd dk)),
          bytes_sent = fst nt, bytes_recv = snd nt\<rparr>"
  using assms
  by (simp add: snapshot_of_def build_snapshot_def snd_io_bind io_return_def case_prod_beta)

lemma failing_category:
  assumes "is_Exception e"
  shows "socket_has w ''error'' \<Longrightarrow>
           snd (get_local_ip (w\<lparr>sock_local_addr := (\<lambda>peer. Inl e)\<rparr>)) = Inr None"
    and "snd (get_cpu_usage (w\<lparr>cpu_percent := Inl e\<rparr>)) = Inr None"
    and "snd (get_cpu_clock (w\<lparr>cpu_freq_current := Inl e\<rparr>)) = Inr None"
    and "snd (get_cpu_name (w\<lparr>cpu_info_model := Inl e\<rparr>)) = Inr None"
    and "snd (get_ram_usage (w\<lparr>virtual_memory := Inl e\<rparr>)) = Inr (None, None, None)"
    and "snd (get_disk_usage (w\<lparr>disk_usage := (\<lambda>path. Inl e)\<rparr>) p) =
           Inr (None, None, None, None)"
    and "snd (get_network_activity (w\<lparr>net_io_counters_1 := Inl e\<rparr>)) = Inr (None, None)"
    and "no_interrupt w \<Longrightarrow>
           snd (get_network_activity (w\<lparr>net_io_counters_2 := Inl e\<rparr>)) = Inr (None, None)"
proof -
  show "socket_has w ''error'' \<Longrightarrow>
      snd (get_local_ip (w\<lparr>sock_local_addr := (\<lambda>peer. Inl e)\<rparr>)) = Inr None"
    using assms
    by (auto simp: snd_get_local_ip get_local_ip_try_def socket_attr_def snd_rules
        split: sum.splits)
  show "snd (get_cpu_usage (w\<lparr>cpu_percent := Inl e\<rparr>)) = Inr None"
    using assms by (simp add: get_cpu_usage_def get_cpu_usage_try_def snd_rules)
  show "snd (get_cpu_clock (w\<lparr>cpu_freq_current := Inl e\<rparr>)) = Inr None"
    using assms by (simp add: get_cpu_clock_def get_cpu_clock_try_def snd_rules)
  show "snd (get_cpu_name (w\<lparr>cpu_info_model := Inl e\<rparr>)) = Inr None"
    using assms by (simp add: get_cpu_name_def get_cpu_name_try_def snd_rules)
  show "snd (get_ram_usage (w\<lparr>virtual_memory := Inl e\<rparr>)) = Inr (None, None, None)"
    using assms by (simp add: get_ram_usage_def get_ram_usage_try_def snd_rules)
  show "snd (get_disk_usage (w\<lparr>disk_usage := (\<lambda>path. Inl e)\<rparr>) p) =
      Inr (None, None, None, None)"
    using assms by (simp add: get_disk_usage_def get_disk_usage_try_def snd_rules)
  show "snd (get_network_activity (w\<lparr>net_io_counters_1 := Inl e\<rparr>)) = Inr (None, None)"
    using assms
    by (simp add: get_network_activity_def get_network_activity_try_def snd_rules)
  show "no_interrupt w \<Longrightarrow>
      snd (get_network_activity (w\<lparr>net_io_counters_2 := Inl e\<rparr>)) = Inr (None, None)"
    using assms
    by (auto simp: get_network_activity_def get_network_activity_try_def snd_rules
        no_interrupt_def caught_def split: sum.splits option.splits)
qed

lemma frame:
  "get_cpu_usage (w\<lparr>sock_local_addr := a\<rparr>) = get_cpu_usage w"
  "get_cpu_clock (w\<lparr>sock_local_addr := a\<rparr>) = get_cpu_clock w"
  "get_cpu_name (w\<lparr>sock_local_addr := a\<rparr>) = get_cpu_name w"
  "get_ram_usage (w\<lparr>sock_local_addr := a\<rparr>) = get_ram_usage w"
  "get_disk_usage (w\<lparr>sock_local_addr := a\<rparr>) p = get_disk_usage w p"
  "get_network_activity (w\<lparr>sock_local_addr := a\<rparr>) = get_network_activity w"
  "get_local_ip (w\<lparr>cpu_percent := b\<rparr>) = get_local_ip w"
  "get_cpu_clock (w\<lparr>cpu_percent := b\<rparr>) = get_cpu_clock w"
  "get_cpu_name (w\<lparr>cpu_percent := b\<rparr>) = get_cpu_name w"
  "get_ram_usage (w\<lparr>cpu_percent := b\<rparr>) = get_ram_usage w"
  "get_disk_usage (w\<lparr>cpu_percent := b\<rparr>) p = get_disk_usage w p"
  "get_network_activity (w\<lparr>cpu_percent := b\<rparr>) = get_network_activity w"
  "get_local_ip (w\<lparr>cpu_freq_current := b\<rparr>) = get_local_ip w"
  "get_cpu_usage (w\<lparr>cpu_freq_current := b\<rparr>) = get_cpu_usage w"
  "get_cpu_name (w\<lparr>cpu_freq_current := b\<rparr>) = get_cpu_name w"
  "get_ram_usage (w\<lparr>cpu_freq_current := b\<rparr>) = get_ram_usage w"
  "get_disk_usage (w\<lparr>cpu_freq_current := b\<rparr>) p = get_disk_usage w p"
  "get_network_activity (w\<lparr>cpu_freq_current := b\<rparr>) = get_network_activity w"
  "get_local_ip (w\<lparr>cpu_info_model := c\<rparr>) = get_local_ip w"
  "get_cpu_usage (w\<lparr>cpu_info_model := c\<rparr>) = get_cpu_usage w"
  "get_cpu_clock (w\<lparr>cpu_info_model := c\<rparr>) = get_cpu_clock w"
  "get_ram_usage (w\<lparr>cpu_info_model := c\<rparr>) = get_ram_usage w"
  "get_disk_usage (w\<lparr>cpu_info_model := c\<rparr>) p = get_disk_usage w p"
  "get_network_activity (w\<lparr>cpu_info_model := c\<rparr>) = get_network_activity w"
  "get_local_ip (w\<lparr>virtual_memory := d\<rparr>) = get_local_ip w"
  "get_cpu_usage (w\<lparr>virtual_memory := d\<rparr>) = get_cpu_usage w"
  "get_cpu_clock (w\<lparr>virtual_memory := d\<rparr>) = get_cpu_clock w"
  "get_cpu_name (w\<lparr>virtual_memory := d\<rparr>) = get_cpu_name w"
  "get_disk_usage (w\<lparr>virtual_memory := d\<rparr>) p = get_disk_usage w p"
  "get_network_activity (w\<lparr>virtual_memory := d\<rparr>) = get_network_activity w"
  "get_local_ip (w\<lparr>disk_usage := f\<rparr>) = get_local_ip w"
  "get_cpu_usage (w\<lparr>disk_usage := f\<rparr>) = get_cpu_usage w"
  "get_cpu_clock (w\<lparr>disk_usage := f\<rparr>) = get_cpu_clock w"
  "get_cpu_name (w\<lparr>disk_usage := f\<rparr>) = get_cpu_name w"
  "get_ram_usage (w\<lparr>disk_usage := f\<rparr>) = get_ram_usage w"
  "get_network_activity (w\<lparr>disk_usage := f\<rparr>) = get_network_activity w"
  "get_local_ip (w\<lparr>net_io_counters_1 := g\<rparr>) = get_local_ip w"
  "get_cpu_usage (w\<lparr>net_io_counters_1 := g\<rparr>) = get_cpu_usage w"
  "get_cpu_clock (w\<lparr>net_io_counters_1 := g\<rparr>) = get_cpu_clock w"
  "get_cpu_name (w\<lparr>net_io_counters_1 := g\<rparr>) = get_cpu_name w"
  "get_ram_usage (w\<lparr>net_io_counters_1 := g\<rparr>) = get_ram_usage w"
  "get_disk_usage (w\<lparr>net_io_counters_1 := g\<rparr>) p = get_disk_usage w p"
  "get_local_ip (w\<lparr>net_io_counters_2 := g\<rparr>) = get_local_ip w"
  "get_cpu_usage (w\<lparr>net_io_counters_2 := g\<rparr>) = get_cpu_usage w"
  "get_cpu_clock (w\<lparr>net_io_counters_2 := g\<rparr>) = get_cpu_clock w"
  "get_cpu_name (w\<lparr>net_io_counters_2 := g\<rparr>) = get_cpu_name w"
  "get_ram_usage (w\<lparr>net_io_counters_2 := g\<rparr>) = get_ram_usage w"
  "get_disk_usage (w\<lparr>net_io_counters_2 := g\<rparr>) p = get_disk_usage w p"
  by (simp_all add: sampler_defs)

lemma sysmon_all_or_nothing:
  assumes "no_interrupt w" and "is_Exception e"
  shows "snd (get_system_usage (w\<lparr>cpu_percent := Inl e\<rparr>)) =
           Inr (None, None, None, None, None, None, None, None, None)"
    and "snd (get_system_usage (w\<lparr>virtual_memory := Inl e\<rparr>)) =
           Inr (None, None, None, None, None, None, None, None, None)"
    and "snd (get_system_usage (w\<lparr>net_io_counters_1 := Inl e\<rparr>)) =
           Inr (None, None, None, None, None, None, None, None, None)"
    and "snd (get_system_usage (w\<lparr>net_io_counters_2 := Inl e\<rparr>)) =
           Inr (None, None, None, None, None, None, None, None, None)"
    and "snd (get_system_usage (w\<lparr>disk_usage := (\<lambda>path. Inl e)\<rparr>)) =
           Inr (None, None, None, None, None, None, None, None, None)"
  using assms
  by (auto simp: get_system_usage_def get_system_usage_try_def snd_rules
      no_interrupt_def caught_def split: sum.splits option.splits)

lemma no_interrupt_host: "no_interrupt host"
  by (simp add: no_interrupt_def caught_def host_def cpython_socket_def)

text \<open>
  Claim C1 says that one failing category leaves every other category populated, in
  every snapshot build. \<^verbatim>\<open>get_system_usage\<close> of sysmon.py samples all categories in one
  \<^verbatim>\<open>try\<close>: when the disk query is refused, the CPU reading, which had succeeded, is
  returned as \<^verbatim>\<open>None\<close> with all the others.
\<close>

theorem sysmon_disk_failure_blanks_cpu:
  "cpu_percent disk_down = Inr (25 / 2) \<and>
   snd (get_system_usage disk_down) =
     Inr (None, None, None, None, None, None, None, None, None)"
  by (simp add: get_system_usage_def get_system_usage_try_def disk_down_def host_def
      psutil_call_def psutil_api_def io_return_def)

lemma snapshot_of_SomeD: "snapshot_of w = Some s \<Longrightarrow> \<exists>es. build_snapshot w = (es, Inr s)"
  by (cases "build_snapshot w") (auto simp: snapshot_of_def split: sum.splits)

lemma successful_samplers:
  "socket_has w ''socket'' \<and> socket_has w ''af_inet'' \<and> socket_has w ''sock_dgram'' \<and>
   sock_local_addr w (''8.8.8.8'', 80) = Inr a \<Longrightarrow> snd (get_local_ip w) = Inr (Some a)"
  "psutil_has w ''cpu_percent'' \<and> cpu_percent w = Inr p \<Longrightarrow>
   snd (get_cpu_usage w) = Inr (Some p)"
  "psutil_has w ''cpu_freq'' \<and> cpu_freq_current w = Inr c \<Longrightarrow>
   snd (get_cpu_clock w) = Inr (Some c)"
  "psutil_has w ''cpu_info'' \<and> cpu_info_model w = Inr nm \<Longrightarrow>
   snd (get_cpu_name w) = Inr (Some nm)"
  "psutil_has w ''virtual_memory'' \<and> virtual_memory w = Inr m \<Longrightarrow>
   snd (get_ram_usage w) =
     Inr (Some (to_gb (vm_total m)), Some (to_gb (vm_used m)), Some (vm_percent m))"
  "psutil_has w ''disk_usage'' \<and> disk_usage w ''/'' = Inr d \<and> du_device d = Some dev \<Longrightarrow>
   snd (get_disk_usage w ''/'') =
     Inr (Some dev, Some (to_gb (du_total d)), Some (to_gb (du_used d)), Some (du_percent d))"
  "psutil_has w ''net_io_counters'' \<and> net_io_counters_1 w = Inr c1 \<and> sleep_1s w = None \<and>
   net_io_counters_2 w = Inr c2 \<Longrightarrow>
   snd (get_network_activity w) =
     Inr (Some (nio_bytes_sent c2 - nio_bytes_sent c1),
          Some (nio_bytes_recv c2 - nio_bytes_recv c1))"
  by (simp_all add: snd_get_local_ip get_local_ip_try_def socket_attr_def get_cpu_usage_def
      get_cpu_usage_try_def get_cpu_clock_def get_cpu_clock_try_def get_cpu_name_def
      get_cpu_name_try_def get_ram_usage_def get_ram_usage_try_def get_disk_usage_def
      get_disk_usage_try_def get_network_activity_def get_network_activity_try_def snd_rules)

lemma snapshot_fields_of_samplers:
  assumes "snapshot_of w = Some s"
  shows "snd (get_local_ip w) = Inr (ip_address s) \<and>
     snd (get_cpu_usage w) = Inr (cpu_usage s) \<and>
     snd (get_cpu_clock w) = Inr (cpu_clock s) \<and>
     snd (get_cpu_name w) = Inr (cpu_name s) \<and>
     snd (get_ram_usage w) = Inr (ram_total s, ram_used s, ram_percent s) \<and>
     snd (get_disk_usage w ''/'') =
       Inr (disk_device s, disk_total s, disk_used s, disk_percent s) \<and>
     snd (get_network_activity w) = Inr (bytes_sent s, bytes_recv s)"
proof -
  from assms obtain es where "build_snapshot w = (es, Inr s)"
    using snapshot_of_SomeD by blast
  from build_snapshot_fields [OF this] show ?thesis
    by simp
qed

lemma snapshot_populated:
  assumes "snapshot_of w = Some s"
  shows "(socket_has w ''socket'' \<and> socket_has w ''af_inet'' \<and> socket_has w ''sock_dgram'' \<and>
      sock_local_addr w (''8.8.8.8'', 80) = Inr a \<longrightarrow> ip_address s = Some a) \<and>
     (psutil_has w ''cpu_percent'' \<and> cpu_percent w = Inr p \<longrightarrow> cpu_usage s = Some p) \<and>
     (psutil_has w ''cpu_freq'' \<and> cpu_freq_current w = Inr c \<longrightarrow> cpu_clock s = Some c) \<and>
     (psutil_has w ''cpu_info'' \<and> cpu_info_model w = Inr nm \<longrightarrow> cpu_name s = Some nm) \<and>
     (psutil_has w ''virtual_memory'' \<and> virtual_memory w = Inr m \<longrightarrow>
        ram_total s = Some (to_gb (vm_total m)) \<and> ram_used s = Some (to_gb (vm_used m)) \<and>
        ram_percent s = Some (vm_percent m)) \<and>
     (psutil_has w ''disk_usage'' \<and> disk_usage w ''/'' = Inr d \<and> du_device d = Some dev \<longrightarrow>
        disk_device s = Some dev \<and> disk_total s = Some (to_gb (du_total d)) \<and>
        disk_used s = Some (to_gb (du_used d)) \<and> disk_percent s = Some (du_percent d)) \<and>
     (psutil_has w ''net_io_counters'' \<and> net_io_counters_1 w = Inr c1 \<and> sleep_1s w = None \<and>
      net_io_counters_2 w = Inr c2 \<longrightarrow>
        bytes_sent s = Some (nio_bytes_sent c2 - nio_bytes_sent c1) \<and>
        bytes_recv s = Some (nio_bytes_recv c2 - nio_bytes_recv c1))"
  using snapshot_fields_of_samplers [OF assms] successful_samplers [of w]
  by (intro conjI impI) fastforce+

text \<open>
  Claim C1, amended. In clisysmtr.py, where every sampler has a \<^verbatim>\<open>try\<close> of its own: in
  a world where no call is interrupted the snapshot is built, never aborted; each of its
  field groups is what its own sampler returns, and is populated with the reading when
  that category's acquisition succeeds; and making the acquisition of one category
  fail with an \<^verbatim>\<open>Exception\<close> gives the same snapshot with the fields of exactly that
  category \<^verbatim>\<open>None\<close>. In sysmon.py a failure of any one query makes
  \<^verbatim>\<open>get_system_usage\<close> return \<^verbatim>\<open>None\<close> for all nine fields, without raising.
\<close>

theorem sampling_failures_stay_in_their_category:
  assumes "no_interrupt w" and "is_Exception e"
  shows "(\<forall>s. snapshot_of w = Some s \<longrightarrow>
       snd (get_local_ip w) = Inr (ip_address s) \<and>
       snd (get_cpu_usage w) = Inr (cpu_usage s) \<and>
       snd (get_cpu_clock w) = Inr (cpu_clock s) \<and>
       snd (get_cpu_name w) = Inr (cpu_name s) \<and>
       snd (get_ram_usage w) = Inr (ram_total s, ram_used s, ram_percent s) \<and>
       snd (get_disk_usage w ''/'') =
         Inr (disk_device s, disk_total s, disk_used s, disk_percent s) \<and>
       snd (get_network_activity w) = Inr (bytes_sent s, bytes_recv s) \<and>
       (socket_has w ''socket'' \<and> socket_has w ''af_inet'' \<and> socket_has w ''sock_dgram'' \<and>
        sock_local_addr w (''8.8.8.8'', 80) = Inr a \<longrightarrow> ip_address s = Some a) \<and>
       (psutil_has w ''cpu_percent'' \<and> cpu_percent w = Inr p \<longrightarrow> cpu_usage s = Some p) \<and>
       (psutil_has w ''cpu_freq'' \<and> cpu_freq_current w = Inr c \<longrightarrow> cpu_clock s = Some c) \<and>
       (psutil_has w ''cpu_info'' \<and> cpu_info_model w = Inr nm \<longrightarrow> cpu_name s = Some nm) \<and>
       (psutil_has w ''virtual_memory'' \<and> virtual_memory w = Inr m \<longrightarrow>
          ram_total s = Some (to_gb (vm_total m)) \<and> ram_used s = Some (to_gb (vm_used m)) \<and>
          ram_percent s = Some (vm_percent m)) \<and>
       (psutil_has w ''disk_usage'' \<and> disk_usage w ''/'' = Inr d \<and> du_device d = Some dev \<longrightarrow>
          disk_device s = Some dev \<and> disk_total s = Some (to_gb (du_total d)) \<and>
          disk_used s = Some (to_gb (du_used d)) \<and> disk_percent s = Some (du_percent d)) \<and>
       (psutil_has w ''net_io_counters'' \<and> net_io_counters_1 w = Inr c1 \<and> sleep_1s w = None \<and>
        net_io_counters_2 w = Inr c2 \<longrightarrow>
          bytes_sent s = Some (nio_bytes_sent c2 - nio_bytes_sent c1) \<and>
          bytes_recv s = Some (nio_bytes_recv c2 - nio_bytes_recv c1))) \<and>
    snapshot_of w \<noteq> None \<and>
    snapshot_of (w\<lparr>sock_local_addr := (\<lambda>peer. Inl e)\<rparr>) =
      map_option (\<lambda>s. s\<lparr>ip_address := None\<rparr>) (snapshot_of w) \<and>
    snapshot_of (w\<lparr>cpu_percent := Inl e\<rparr>) =
      map_option (\<lambda>s. s\<lparr>cpu_usage := None\<rparr>) (snapshot_of w) \<and>
    snapshot_of (w\<lparr>cpu_freq_current := Inl e\<rparr>) =
      map_option (\<lambda>s. s\<lparr>cpu_clock := None\<rparr>) (snapshot_of w) \<and>
    snapshot_of (w\<lparr>cpu_info_model := Inl e\<rparr>) =
      map_option (\<lambda>s. s\<lparr>cpu_name := None\<rparr>) (snapshot_of w) \<and>
    snapshot_of (w\<lparr>virtual_memory := Inl e\<rparr>) =
      map_option (\<lambda>s. s\<lparr>ram_total := None, ram_used := None, ram_percent := None\<rparr>)
        (snapshot_of w) \<and>
    snapshot_of (w\<lparr>disk_usage := (\<lambda>path. Inl e)\<rparr>) =
      map_option (\<lambda>s. s\<lparr>disk_device := None, disk_total := None, disk_used := None,
                          disk_percent := None\<rparr>) (snapshot_of w) \<and>
    snapshot_of (w\<lparr>net_io_counters_1 := Inl e\<rparr>) =
      map_option (\<lambda>s. s\<lparr>bytes_sent := None, bytes_recv := None\<rparr>) (snapshot_of w) \<and>
    snapshot_of (w\<lparr>net_io_counters_2 := Inl e\<rparr>) =
      map_option (\<lambda>s. s\<lparr>bytes_sent := None, bytes_recv := None\<rparr>) (snapshot_of w) \<and>
    snd (get_system_usage (w\<lparr>cpu_percent := Inl e\<rparr>)) =
      Inr (None, None, None, None, None, None, None, None, None) \<and>
    snd (get_system_usage (w\<lparr>virtual_memory := Inl e\<rparr>)) =
      Inr (None, None, None, None, None, None, None, None, None) \<and>
    snd (get_system_usage (w\<lparr>net_io_counters_1 := Inl e\<rparr>)) =
      Inr (None, None, None, None, None, None, None, None, None) \<and>
    snd (get_system_usage (w\<lparr>net_io_counters_2 := Inl e\<rparr>)) =
      Inr (None, None, None, None, None, None, None, None, None) \<and>
    snd (get_system_usage (w\<lparr>disk_usage := (\<lambda>path. Inl e)\<rparr>)) =
      Inr (None, None, None, None, None, None, None, None, None)"
proof -
  obtain ip where ip: "snd (get_local_ip w) = Inr ip"
    using samplers_return(1) [OF assms(1)] by blast
  obtain cu where cu: "snd (get_cpu_usage w) = Inr cu"
    using samplers_return(2) [OF assms(1)] by blast
  obtain cc where cc: "snd (get_cpu_clock w) = Inr cc"
    using samplers_return(3) [OF assms(1)] by blast
  obtain cn where cn: "snd (get_cpu_name w) = Inr cn"
    using samplers_return(4) [OF assms(1)] by blast
  obtain rm where rm: "snd (get_ram_usage w) = Inr rm"
    using samplers_return(5) [OF assms(1)] by blast
  obtain dk where dk: "snd (get_disk_usage w ''/'') = Inr dk"
    using samplers_return(6) [OF assms(1)] by blast
  obtain nt where nt: "snd (get_network_activity w) = Inr nt"
    using samplers_return(7) [OF assms(1)] by blast
  note vals = ip cu cc cn rm dk nt
  note fails = failing_category [OF assms(2)]
  have err: "socket_has w ''error''"
    using assms(1) by (simp add: no_interrupt_def)
  have base: "snapshot_of w =
    Some \<lparr>ip_address = ip, cpu_usage = cu, cpu_clock = cc, cpu_name = cn,
          ram_total = fst rm, ram_used = fst (snd rm), ram_percent = snd (snd rm),
          disk_device = fst dk, disk_total = fst (snd dk), disk_used = fst (snd (snd dk)),
          disk_percent = snd (snd (snd dk)),
          bytes_sent = fst nt, bytes_recv = snd nt\<rparr>"
    by (rule snapshot_of_samplers [OF vals])
  have c0: "snapshot_of w \<noteq> None"
    by (simp add: base)
  have c1: "snapshot_of (w\<lparr>sock_local_addr := (\<lambda>peer. Inl e)\<rparr>) =
      map_option (\<lambda>s. s\<lparr>ip_address := None\<rparr>) (snapshot_of w)"
    using snapshot_of_samplers [of "w\<lparr>sock_local_addr := (\<lambda>peer. Inl e)\<rparr>"
        None cu cc cn rm dk nt]
    by (simp add: frame vals fails(1) [OF err] base)
  have c2: "snapshot_of (w\<lparr>cpu_percent := Inl e\<rparr>) =
      map_option (\<lambda>s. s\<lparr>cpu_usage := None\<rparr>) (snapshot_of w)"
    using snapshot_of_samplers [of "w\<lparr>cpu_percent := Inl e\<rparr>" ip None cc cn rm dk nt]
    by (simp add: frame vals fails base)
  have c3: "snapshot_of (w\<lparr>cpu_freq_current := Inl e\<rparr>) =
      map_option (\<lambda>s. s\<lparr>cpu_clock := None\<rparr>) (snapshot_of w)"
    using snapshot_of_samplers [of "w\<lparr>cpu_freq_current := Inl e\<rparr>" ip cu None cn rm dk nt]
    by (simp add: frame vals fails base)
  have c4: "snapshot_of (w\<lparr>cpu_info_model := Inl e\<rparr>) =
      map_option (\<lambda>s. s\<lparr>cpu_name := None\<rparr>) (snapshot_of w)"
    using snapshot_of_samplers [of "w\<lparr>cpu_info_model := Inl e\<rparr>" ip cu cc None rm dk nt]
    by (simp add: frame vals fails base)
  have c5: "snapshot_of (w\<lparr>virtual_memory := Inl e\<rparr>) =
      map_option (\<lambda>s. s\<lparr>ram_total := None, ram_used := None, ram_percent := None\<rparr>)
        (snapshot_of w)"
    using snapshot_of_samplers [of "w\<lparr>virtual_memory := Inl e\<rparr>" ip cu cc cn
        "(None, None, None)" dk nt]
    by (simp add: frame vals fails base)
  have c6: "snapshot_of (w\<lparr>disk_usage := (\<lambda>path. Inl e)\<rparr>) =
      map_option (\<lambda>s. s\<lparr>disk_device := None, disk_total := None, disk_used := None,
                          disk_percent := None\<rparr>) (snapshot_of w)"
    using snapshot_of_samplers [of "w\<lparr>disk_usage := (\<lambda>path. Inl e)\<rparr>" ip cu cc cn rm
        "(None, None, None, None)" nt]
    by (simp add: frame vals fails base)
  have c7: "snapshot_of (w\<lparr>net_io_counters_1 := Inl e\<rparr>) =
      map_option (\<lambda>s. s\<lparr>bytes_sent := None, bytes_recv := None\<rparr>) (snapshot_of w)"
    using snapshot_of_samplers [of "w\<lparr>net_io_counters_1 := Inl e\<rparr>" ip cu cc cn rm dk
        "(None, None)"]
    by (simp add: frame vals fails base)
  have c8: "snapshot_of (w\<lparr>net_io_counters_2 := Inl e\<rparr>) =
      map_option (\<lambda>s. s\<lparr>bytes_sent := None, bytes_recv := None\<rparr>) (snapshot_of w)"
    using snapshot_of_samplers [of "w\<lparr>net_io_counters_2 := Inl e\<rparr>" ip cu cc cn rm dk
        "(None, None)"]
    by (simp add: frame vals fails(8) [OF assms(1)] base)
  have ties: "(\<forall>s. snapshot_of w = Some s \<longrightarrow>
       snd (get_local_ip w) = Inr (ip_address s) \<and>
       snd (get_cpu_usage w) = Inr (cpu_usage s) \<and>
       snd (get_cpu_clock w) = Inr (cpu_clock s) \<and>
       snd (get_cpu_name w) = Inr (cpu_name s) \<and>
       snd (get_ram_usage w) = Inr (ram_total s, ram_used s, ram_percent s) \<and>
       snd (get_disk_usage w ''/'') =
         Inr (disk_device s, disk_total s, disk_used s, disk_percent s) \<and>
       snd (get_network_activity w) = Inr (bytes_sent s, bytes_recv s) \<and>
       (socket_has w ''socket'' \<and> socket_has w ''af_inet'' \<and> socket_has w ''sock_dgram'' \<and>
        sock_local_addr w (''8.8.8.8'', 80) = Inr a \<longrightarrow> ip_address s = Some a) \<and>
       (psutil_has w ''cpu_percent'' \<and> cpu_percent w = Inr p \<longrightarrow> cpu_usage s = Some p) \<and>
       (psutil_has w ''cpu_freq'' \<and> cpu_freq_current w = Inr c \<longrightarrow> cpu_clock s = Some c) \<and>
       (psutil_has w ''cpu_info'' \<and> cpu_info_model w = Inr nm \<longrightarrow> cpu_name s = Some nm) \<and>
       (psutil_has w ''virtual_memory'' \<and> virtual_memory w = Inr m \<longrightarrow>
          ram_total s = Some (to_gb (vm_total m)) \<and> ram_used s = Some (to_gb (vm_used m)) \<and>
          ram_percent s = Some (vm_percent m)) \<and>
       (psutil_has w ''disk_usage'' \<and> disk_usage w ''/'' = Inr d \<and> du_device d = Some dev \<longrightarrow>
          disk_device s = Some dev \<and> disk_total s = Some (to_gb (du_total d)) \<and>
          disk_used s = Some (to_gb (du_used d)) \<and> disk_percent s = Some (du_percent d)) \<and>
       (psutil_has w ''net_io_counters'' \<and> net_io_counters_1 w = Inr c1 \<and> sleep_1s w = None \<and>
        net_io_counters_2 w = Inr c2 \<longrightarrow>
          bytes_sent s = Some (nio_bytes_sent c2 - nio_bytes_sent c1) \<and>
          bytes_recv s = Some (nio_bytes_recv c2 - nio_bytes_recv c1)))"
  proof (intro allI impI)
    fix s
    assume s: "snapshot_of w = Some s"
    from snapshot_fields_of_samplers [OF s]
      snapshot_populated [OF s, of a p c nm m d dev c1 c2]
    show "snd (get_local_ip w) = Inr (ip_address s) \<and>
       snd (get_cpu_usage w) = Inr (cpu_usage s) \<and>
       snd (get_cpu_clock w) = Inr (cpu_clock s) \<and>
       snd (get_cpu_name w) = Inr (cpu_name s) \<and>
       snd (get_ram_usage w) = Inr (ram_total s, ram_used s, ram_percent s) \<and>
       snd (get_disk_usage w ''/'') =
         Inr (disk_device s, disk_total s, disk_used s, disk_percent s) \<and>
       snd (get_network_activity w) = Inr (bytes_sent s, bytes_recv s) \<and>
       (socket_has w ''socket'' \<and> socket_has w ''af_inet'' \<and> socket_has w ''sock_dgram'' \<and>
        sock_local_addr w (''8.8.8.8'', 80) = Inr a \<longrightarrow> ip_address s = Some a) \<and>
       (psutil_has w ''cpu_percent'' \<and> cpu_percent w = Inr p \<longrightarrow> cpu_usage s = Some p) \<and>
       (psutil_has w ''cpu_freq'' \<and> cpu_freq_current w = Inr c \<longrightarrow> cpu_clock s = Some c) \<and>
       (psutil_has w ''cpu_info'' \<and> cpu_info_model w = Inr nm \<longrightarrow> cpu_name s = Some nm) \<and>
       (psutil_has w ''virtual_memory'' \<and> virtual_memory w = Inr m \<longrightarrow>
          ram_total s = Some (to_gb (vm_total m)) \<and> ram_used s = Some (to_gb (vm_used m)) \<and>
          ram_percent s = Some (vm_percent m)) \<and>
       (psutil_has w ''disk_usage'' \<and> disk_usage w ''/'' = Inr d \<and> du_device d = Some dev \<longrightarrow>
          disk_device s = Some dev \<and> disk_total s = Some (to_gb (du_total d)) \<and>
          disk_used s = Some (to_gb (du_used d)) \<and> disk_percent s = Some (du_percent d)) \<and>
       (psutil_has w ''net_io_counters'' \<and> net_io_counters_1 w = Inr c1 \<and> sleep_1s w = None \<and>
        net_io_counters_2 w = Inr c2 \<longrightarrow>
          bytes_sent s = Some (nio_bytes_sent c2 - nio_bytes_sent c1) \<and>
          bytes_recv s = Some (nio_bytes_recv c2 - nio_bytes_recv c1))"
      by simp
  qed
  show ?thesis
    by (intro conjI)
      (rule ties c0 c1 c2 c3 c4 c5 c6 c7 c8 sysmon_all_or_nothing [OF assms])+
qed

text \<open>The amended claim on the healthy host, where the memory query, the CPU query or
  the disk query is refused.\<close>

theorem sampling_failures_on_host:
  "no_interrupt host \<and> is_Exception (OSError ''[Errno 13] Permission denied'') \<and>
   snapshot_of host =
     Some \<lparr>ip_address = None, cpu_usage = Some (25 / 2), cpu_clock = Some 2400, cpu_name = None,
          ram_total = Some 16, ram_used = Some 8, ram_percent = Some 50,
          disk_device = None, disk_total = None, disk_used = None, disk_percent = None,
          bytes_sent = Some 500, bytes_recv = Some 600\<rparr> \<and>
   snapshot_of ram_down =
     Some \<lparr>ip_address = None, cpu_usage = Some (25 / 2), cpu_clock = Some 2400, cpu_name = None,
          ram_total = None, ram_used = None, ram_percent = None,
          disk_device = None, disk_total = None, disk_used = None, disk_percent = None,
          bytes_sent = Some 500, bytes_recv = Some 600\<rparr> \<and>
   snapshot_of (host\<lparr>cpu_percent := Inl (OSError ''[Errno 13] Permission denied'')\<rparr>) =
     Some \<lparr>ip_address = None, cpu_usage = None, cpu_clock = Some 2400, cpu_name = None,
          ram_total = Some 16, ram_used = Some 8, ram_percent = Some 50,
          disk_device = None, disk_total = None, disk_used = None, disk_percent = None,
          bytes_sent = Some 500, bytes_recv = Some 600\<rparr> \<and>
   snd (get_system_usage disk_down) =
     Inr (None, None, None, None, None, None, None, None, None)"
proof -
  have e: "is_Exception (OSError ''[Errno 13] Permission denied'')"
    by simp
  have h: "snapshot_of host =
     Some \<lparr>ip_address = None, cpu_usage = Some (25 / 2), cpu_clock = Some 2400, cpu_name = None,
          ram_total = Some 16, ram_used = Some 8, ram_percent = Some 50,
          disk_device = None, disk_total = None, disk_used = None, disk_percent = None,
          bytes_sent = Some 500, bytes_recv = Some 600\<rparr>"
    by (simp add: snapshot_of_def host_snapshot)
  from sampling_failures_stay_in_their_category [OF no_interrupt_host e] h
  show ?thesis
    by (simp add: no_interrupt_host ram_down_def disk_down_def)
qed

section \<open>Exit codes\<close>

lemma while_True_ends:
  "list_all (\<lambda>u. snd (body u) = Inr ()) pre \<Longrightarrow> snd (body v) = Inl e \<Longrightarrow>
   while_True body (pre @ v # post) = Some (effects_of body (pre @ [v]), e)"
proof (induction pre)
  case Nil
  then show ?case
    by (cases "body v") (simp add: effects_of_def)
next
  case (Cons u pre)
  then have "while_True body (pre @ v # post) = Some (effects_of body (pre @ [v]), e)"
    by simp
  with Cons.prems show ?case
    by (cases "body u") (simp add: effects_of_def)
qed

lemma other_system_usage:
  "snd (get_system_usage clock_out_of_range) =
     Inr (Some (25 / 2), Some 50, Some 16, Some 8, Some 500, Some 600, Some 100, Some 40, Some 60)"
  "snd (get_system_usage interrupted) =
     Inr (Some (25 / 2), Some 50, Some 16, Some 8, Some 500, Some 600, Some 100, Some 40, Some 60)"
  by (simp_all add: get_system_usage_def get_system_usage_try_def host_def
      clock_out_of_range_def interrupted_def psutil_call_def psutil_api_def io_return_def
      to_gb_values)

lemma log_system_usage_returns:
  assumes "snd (get_system_usage w) = Inr (Some a, b, c, d, e, g, h, i, j)"
    and "strftime_now w ''%Y-%m-%d %H:%M:%S'' = Inr ts"
    and "sysmon_log_entry w ts (Some a, b, c, d, e, g, h, i, j) = Inr t"
    and "append_file w f t = None"
  shows "snd (log_system_usage w f) = Inr ()"
  using assms
  by (simp add: log_system_usage_def snd_io_bind now_strftime_def snd_except_Exception
      file_append_def print_def)

lemma log_system_usage_clock:
  assumes "snd (get_system_usage w) = Inr (Some a, b, c, d, e, g, h, i, j)"
    and "strftime_now w ''%Y-%m-%d %H:%M:%S'' = Inl x"
  shows "snd (log_system_usage w f) = Inl x"
  using assms
  by (simp add: log_system_usage_def snd_io_bind now_strftime_def)

lemma clock_log_system_usage:
  "snd (log_system_usage clock_out_of_range f) = Inl (ValueError ''year 10000 is out of range'')"
  by (rule log_system_usage_clock [OF other_system_usage(1)])
    (simp add: clock_out_of_range_def)

lemma interrupted_log_system_usage: "snd (log_system_usage interrupted f) = Inr ()"
proof -
  obtain t where "sysmon_log_entry interrupted ''2026-11-04 12:00:00''
      (Some (25 / 2), Some 50, Some 16, Some 8, Some 500, Some 600, Some 100, Some 40, Some 60) =
      Inr t"
    by (simp add: sysmon_log_entry_def out_bind_def fmt_2f_opt_Some)
  then show ?thesis
    using log_system_usage_returns [OF other_system_usage(2), of "''2026-11-04 12:00:00''" t f]
    by (simp add: interrupted_def host_def)
qed

lemma sysmon_body_clock:
  "snd (sysmon_body 8 f clock_out_of_range) = Inl (ValueError ''year 10000 is out of range'')"
  by (simp add: sysmon_body_def snd_io_bind clock_log_system_usage)

lemma display_interrupted_sampling:
  "snd (display_system_info interrupted_sampling a) = Inl KeyboardInterrupt"
proof -
  have "snd (get_network_activity interrupted_sampling) = Inl KeyboardInterrupt"
    by (simp add: get_network_activity_def get_network_activity_try_def snd_rules
        interrupted_sampling_def host_def psutil_api_def)
  moreover have "get_local_ip interrupted_sampling = get_local_ip host"
    "get_cpu_usage interrupted_sampling = get_cpu_usage host"
    "get_cpu_clock interrupted_sampling = get_cpu_clock host"
    "get_cpu_name interrupted_sampling = get_cpu_name host"
    "get_ram_usage interrupted_sampling = get_ram_usage host"
    "get_disk_usage interrupted_sampling ''/'' = get_disk_usage host ''/''"
    by (simp_all add: sampler_defs interrupted_sampling_def)
  ultimately have "snd (build_snapshot interrupted_sampling) = Inl KeyboardInterrupt"
    by (simp add: build_snapshot_def snd_io_bind host_samplers)
  then show ?thesis
    by (simp add: display_system_info_def snd_io_bind)
qed

lemma loop_body_huge:
  "snd (loop_body huge_interval host) =
     Inl (OverflowError ''timestamp too large to convert to C _PyTime_t'')"
  by (simp add: loop_body_def snd_io_bind host_display huge_interval_def truthy_str_def
      time_sleep_def io_raise_def)

text \<open>
  Claim C3 says that an unexpected error during a pass of the loop ends the process
  with exit code 1 in both programs, and that a user interrupt ends it with exit code 0
  in every mode. In sysmon.py, run as the script runs it, a clock that \<^verbatim>\<open>datetime\<close>
  cannot represent raises \<^verbatim>\<open>ValueError\<close> in the first pass; \<^verbatim>\<open>monitor_system\<close> prints it
  and returns, and the process ends with exit code 0. In clisysmtr.py with \<^verbatim>\<open>--no-loop\<close>
  nothing catches a \<^verbatim>\<open>KeyboardInterrupt\<close>: Ctrl-C during the pass ends the process by
  the signal, not with exit code 0.
\<close>

theorem unexpected_error_exits_zero_in_sysmon:
  "snd (sysmon_body 8 ''sysmon_log.txt'' clock_out_of_range) =
     Inl (ValueError ''year 10000 is out of range'') \<and>
   map_option (exit_status \<circ> snd) (sysmon [clock_out_of_range]) = Some (Code 0) \<and>
   no_loop one_shot \<and>
   snd (display_system_info interrupted_sampling one_shot) = Inl KeyboardInterrupt \<and>
   map_option (exit_status \<circ> snd) (clisysmtr one_shot interrupted_sampling []) = Some Sigint"
proof -
  have "while_True (sysmon_body 8 ''sysmon_log.txt'') [clock_out_of_range] =
          Some (fst (sysmon_body 8 ''sysmon_log.txt'' clock_out_of_range),
                ValueError ''year 10000 is out of range'')"
    by (rule while_True_first) (rule sysmon_body_clock)
  then have "map_option (exit_status \<circ> snd) (sysmon [clock_out_of_range]) = Some (Code 0)"
    by (simp add: sysmon_def monitor_system_def)
  moreover have "no_loop one_shot"
    by (simp add: one_shot_def)
  ultimately show ?thesis
    by (simp add: sysmon_body_clock display_interrupted_sampling clisysmtr_def main_def
        case_prod_beta)
qed

text \<open>
  Claim C3, amended. clisysmtr.py in continuous mode: when the earlier passes return
  and a pass raises, the process reports it and exits with code 0 if the exception is
  \<^verbatim>\<open>KeyboardInterrupt\<close> and with code 1 if it is any \<^verbatim>\<open>Exception\<close>. clisysmtr.py in
  one-shot mode makes the one pass and exits with code 0 when the pass returns and with
  code 1 when it raises an \<^verbatim>\<open>Exception\<close>, which nothing catches; a \<^verbatim>\<open>KeyboardInterrupt\<close>
  in the pass is not caught either and ends the process by the signal. sysmon.py: when
  the earlier passes return and a pass raises \<^verbatim>\<open>KeyboardInterrupt\<close> or any
  \<^verbatim>\<open>Exception\<close>, \<^verbatim>\<open>monitor_system\<close> reports it and returns, and the process exits with
  code 0.
\<close>

theorem exit_codes:
  "(\<not> no_loop a \<and> w # ws = pre @ v # post \<and>
    list_all (\<lambda>u. snd (loop_body a u) = Inr ()) pre \<and> snd (loop_body a v) = Inl e \<longrightarrow>
      (e = KeyboardInterrupt \<longrightarrow>
         clisysmtr a w ws =
           Some (effects_of (loop_body a) (pre @ [v]) @
                 [Write Stdout (CHR 0x0A # ''monitoring stopped by user.'')], Exit 0)) \<and>
      (is_Exception e \<longrightarrow>
         clisysmtr a w ws =
           Some (effects_of (loop_body a) (pre @ [v]) @
                 [Write Stdout (''an unexpected error occurred: '' @ exn_str e)], Exit 1))) \<and>
   (no_loop b \<longrightarrow>
      map_option fst (clisysmtr b w' ws') = Some (fst (display_system_info w' b)) \<and>
      (snd (display_system_info w' b) = Inr () \<longrightarrow>
         map_option (exit_status \<circ> snd) (clisysmtr b w' ws') = Some (Code 0)) \<and>
      (is_Exception e' \<and> snd (display_system_info w' b) = Inl e' \<longrightarrow>
         map_option (exit_status \<circ> snd) (clisysmtr b w' ws') = Some (Code 1)) \<and>
      (snd (display_system_info w' b) = Inl KeyboardInterrupt \<longrightarrow>
         map_option (exit_status \<circ> snd) (clisysmtr b w' ws') = Some Sigint)) \<and>
   (list_all (\<lambda>u. snd (sysmon_body secs f u) = Inr ()) pre'' \<and>
    snd (sysmon_body secs f v'') = Inl e'' \<longrightarrow>
      (e'' = KeyboardInterrupt \<longrightarrow>
         monitor_system secs f (pre'' @ v'' # post'') =
           Some (Write Stdout (banner secs f) #
                 effects_of (sysmon_body secs f) (pre'' @ [v'']) @
                 [Write Stdout (CHR 0x0A # ''Monitoring stopped by user.'')], Inr ())) \<and>
      (is_Exception e'' \<longrightarrow>
         monitor_system secs f (pre'' @ v'' # post'') =
           Some (Write Stdout (banner secs f) #
                 effects_of (sysmon_body secs f) (pre'' @ [v'']) @
                 [Write Stdout (''An error occurred during monitoring: '' @ exn_str e'')],
                 Inr ())) \<and>
      (e'' = KeyboardInterrupt \<or> is_Exception e'' \<longrightarrow>
         map_option (exit_status \<circ> script_end \<circ> snd)
           (monitor_system secs f (pre'' @ v'' # post'')) = Some (Code 0)))"
proof (intro conjI impI)
  assume h: "\<not> no_loop a \<and> w # ws = pre @ v # post \<and>
    list_all (\<lambda>u. snd (loop_body a u) = Inr ()) pre \<and> snd (loop_body a v) = Inl e"
  then have l: "while_True (loop_body a) (w # ws) =
      Some (effects_of (loop_body a) (pre @ [v]), e)"
    using while_True_ends [of "loop_body a" pre v e post] by simp
  {
    assume "e = KeyboardInterrupt"
    with h l show "clisysmtr a w ws =
        Some (effects_of (loop_body a) (pre @ [v]) @
              [Write Stdout (CHR 0x0A # ''monitoring stopped by user.'')], Exit 0)"
      by (simp add: clisysmtr_def main_def)
  }
  {
    assume "is_Exception e"
    with h l show "clisysmtr a w ws =
        Some (effects_of (loop_body a) (pre @ [v]) @
              [Write Stdout (''an unexpected error occurred: '' @ exn_str e)], Exit 1)"
      by (auto simp: clisysmtr_def main_def)
  }
next
  assume "no_loop b"
  then show "map_option fst (clisysmtr b w' ws') = Some (fst (display_system_info w' b))"
    by (simp add: clisysmtr_def main_def case_prod_beta)
next
  assume "no_loop b" and "snd (display_system_info w' b) = Inr ()"
  then show "map_option (exit_status \<circ> snd) (clisysmtr b w' ws') = Some (Code 0)"
    by (simp add: clisysmtr_def main_def case_prod_beta)
next
  assume "no_loop b" and "is_Exception e' \<and> snd (display_system_info w' b) = Inl e'"
  then show "map_option (exit_status \<circ> snd) (clisysmtr b w' ws') = Some (Code 1)"
    by (cases e') (simp_all add: clisysmtr_def main_def case_prod_beta)
next
  assume "no_loop b" and "snd (display_system_info w' b) = Inl KeyboardInterrupt"
  then show "map_option (exit_status \<circ> snd) (clisysmtr b w' ws') = Some Sigint"
    by (simp add: clisysmtr_def main_def case_prod_beta)
next
  assume h: "list_all (\<lambda>u. snd (sysmon_body secs f u) = Inr ()) pre'' \<and>
    snd (sysmon_body secs f v'') = Inl e''"
  then have l: "while_True (sysmon_body secs f) (pre'' @ v'' # post'') =
      Some (effects_of (sysmon_body secs f) (pre'' @ [v'']), e'')"
    using while_True_ends [of "sysmon_body secs f" pre'' v'' e'' post''] by simp
  {
    assume "e'' = KeyboardInterrupt"
    with l show "monitor_system secs f (pre'' @ v'' # post'') =
        Some (Write Stdout (banner secs f) #
              effects_of (sysmon_body secs f) (pre'' @ [v'']) @
              [Write Stdout (CHR 0x0A # ''Monitoring stopped by user.'')], Inr ())"
      by (simp add: monitor_system_def)
  }
  {
    assume "is_Exception e''"
    with l show "monitor_system secs f (pre'' @ v'' # post'') =
        Some (Write Stdout (banner secs f) #
              effects_of (sysmon_body secs f) (pre'' @ [v'']) @
              [Write Stdout (''An error occurred during monitoring: '' @ exn_str e'')],
              Inr ())"
      by (auto simp: monitor_system_def)
  }
  {
    assume "e'' = KeyboardInterrupt \<or> is_Exception e''"
    with l show "map_option (exit_status \<circ> script_end \<circ> snd)
        (monitor_system secs f (pre'' @ v'' # post'')) = Some (Code 0)"
      by (auto simp: monitor_system_def)
  }
qed

text \<open>The amended claim on the healthy host: \<^verbatim>\<open>-i -1\<close> and \<^verbatim>\<open>-i 10000000000\<close> end with
  code 1, Ctrl-C between two passes with code 0; a one-shot run ends with code 0, with
  code 1 when the log entry raises, and by the signal on Ctrl-C; sysmon.py ends with
  code 0 on a clock out of range and on Ctrl-C.\<close>

theorem exit_codes_on_host:
  "\<not> no_loop negative_interval \<and>
   snd (loop_body negative_interval host) =
     Inl (ValueError ''sleep length must be non-negative'') \<and>
   map_option snd (clisysmtr negative_interval host []) = Some (Exit 1) \<and>
   \<not> no_loop huge_interval \<and>
   snd (loop_body huge_interval host) =
     Inl (OverflowError ''timestamp too large to convert to C _PyTime_t'') \<and>
   map_option snd (clisysmtr huge_interval host []) = Some (Exit 1) \<and>
   \<not> no_loop continuous \<and>
   snd (loop_body continuous host) = Inr () \<and>
   snd (loop_body continuous interrupted) = Inl KeyboardInterrupt \<and>
   map_option snd (clisysmtr continuous host [interrupted]) = Some (Exit 0) \<and>
   no_loop one_shot \<and> snd (display_system_info host one_shot) = Inr () \<and>
   map_option (exit_status \<circ> snd) (clisysmtr one_shot host []) = Some (Code 0) \<and>
   no_loop one_shot_log \<and>
   snd (display_system_info ram_down one_shot_log) =
     Inl (TypeError ''unsupported format string passed to NoneType.__format__'') \<and>
   map_option (exit_status \<circ> snd) (clisysmtr one_shot_log ram_down []) = Some (Code 1) \<and>
   snd (display_system_info interrupted_sampling one_shot) = Inl KeyboardInterrupt \<and>
   map_option (exit_status \<circ> snd) (clisysmtr one_shot interrupted_sampling []) =
     Some Sigint \<and>
   snd (sysmon_body 8 ''sysmon_log.txt'' clock_out_of_range) =
     Inl (ValueError ''year 10000 is out of range'') \<and>
   map_option (exit_status \<circ> script_end \<circ> snd)
     (monitor_system 8 ''sysmon_log.txt'' [clock_out_of_range]) = Some (Code 0) \<and>
   snd (sysmon_body 8 ''sysmon_log.txt'' interrupted) = Inl KeyboardInterrupt \<and>
   map_option (exit_status \<circ> script_end \<circ> snd)
     (monitor_system 8 ''sysmon_log.txt'' [host, interrupted]) = Some (Code 0)"
proof -
  have d: "snd (display_system_info host one_shot) = Inr ()"
    by (simp add: host_display one_shot_def truthy_str_def)
  have c: "snd (loop_body continuous host) = Inr ()"
    by (simp add: loop_body_def snd_io_bind host_display continuous_def truthy_str_def
        time_sleep_def host_world io_return_def)
  have n: "\<not> no_loop negative_interval" "\<not> no_loop continuous" "no_loop one_shot"
    "no_loop one_shot_log" "\<not> no_loop huge_interval"
    by (simp_all add: negative_interval_def continuous_def one_shot_def one_shot_log_def
        huge_interval_def)
  have sh: "snd (sysmon_body 8 ''sysmon_log.txt'' host) = Inr ()"
    by (simp add: sysmon_body_def snd_io_bind host_log_system_usage time_sleep_def host_world)
  have si: "snd (sysmon_body 8 ''sysmon_log.txt'' interrupted) = Inl KeyboardInterrupt"
  proof -
    have "sleep_interval interrupted = Some KeyboardInterrupt"
      by (simp add: interrupted_def)
    then show ?thesis
      by (simp add: sysmon_body_def snd_io_bind interrupted_log_system_usage time_sleep_def)
  qed
  have f1: "map_option snd (clisysmtr negative_interval host []) = Some (Exit 1)"
    using exit_codes [where a = negative_interval and w = host and ws = "[]" and pre = "[]"
        and v = host and post = "[]" and e = "ValueError ''sleep length must be non-negative''"]
    by (simp add: n loop_body_negative)
  have f2: "map_option snd (clisysmtr huge_interval host []) = Some (Exit 1)"
    using exit_codes [where a = huge_interval and w = host and ws = "[]" and pre = "[]"
        and v = host and post = "[]"
        and e = "OverflowError ''timestamp too large to convert to C _PyTime_t''"]
    by (simp add: n loop_body_huge)
  have f3: "map_option snd (clisysmtr continuous host [interrupted]) = Some (Exit 0)"
    using exit_codes [where a = continuous and w = host and ws = "[interrupted]"
        and pre = "[host]" and v = interrupted and post = "[]" and e = KeyboardInterrupt]
    by (simp add: n c loop_body_interrupted)
  have f4: "map_option (exit_status \<circ> snd) (clisysmtr one_shot host []) = Some (Code 0)"
    using exit_codes [where b = one_shot and w' = host and ws' = "[]"]
    by (simp add: n d)
  have f5: "map_option (exit_status \<circ> snd) (clisysmtr one_shot_log ram_down []) =
      Some (Code 1)"
    using exit_codes [where b = one_shot_log and w' = ram_down and ws' = "[]"
        and e' = "TypeError ''unsupported format string passed to NoneType.__format__''"]
    by (simp add: n display_ram_down)
  have f6: "map_option (exit_status \<circ> snd) (clisysmtr one_shot interrupted_sampling []) =
      Some Sigint"
    using exit_codes [where b = one_shot and w' = interrupted_sampling and ws' = "[]"]
    by (simp add: n display_interrupted_sampling)
  have f7: "map_option (exit_status \<circ> script_end \<circ> snd)
      (monitor_system 8 ''sysmon_log.txt'' [clock_out_of_range]) = Some (Code 0)"
    using exit_codes [where secs = 8 and f = "''sysmon_log.txt''" and pre'' = "[]"
        and v'' = clock_out_of_range and post'' = "[]"
        and e'' = "ValueError ''year 10000 is out of range''"]
    by (simp add: sysmon_body_clock)
  have f8: "map_option (exit_status \<circ> script_end \<circ> snd)
      (monitor_system 8 ''sysmon_log.txt'' [host, interrupted]) = Some (Code 0)"
    using exit_codes [where secs = 8 and f = "''sysmon_log.txt''" and pre'' = "[host]"
        and v'' = interrupted and post'' = "[]" and e'' = KeyboardInterrupt]
    by (simp add: sh si)
  show ?thesis
    by (intro conjI)
      (rule n d c f1 f2 f3 f4 f5 f6 f7 f8 si loop_body_negative loop_body_huge
        loop_body_interrupted display_ram_down display_interrupted_sampling sysmon_body_clock)+
qed

end
